theory Spec2Isabelle
  imports Main "HOL-Library.Char_ord" "HOL-Library.List_Lexorder" "HOL-Library.Word"
    "HOL-Library.AList"
begin

section \<open>JavaScript values\<close>

text \<open>
  The values the modelled functions inspect at run time. Numbers are the integral ones
  (a double that holds an integer below \<open>10^21\<close> prints as its decimal digits); a
  \<open>Uint8Array\<close> or \<open>Buffer\<close> is a list of bytes; an object is an association
  list in insertion order.
\<close>

type_synonym bytes = "8 word list"

datatype jsval =
    JUndefined
  | JNull
  | JBool bool
  | JNum int
  | JStr string
  | JBytes bytes
  | JArr "jsval list"
  | JObj "(string \<times> jsval) list"

text \<open>Truthiness, as the conditional operator and \<open>&&\<close> see a value.\<close>

fun truthy :: "jsval \<Rightarrow> bool" where
  "truthy JUndefined = False"
| "truthy JNull = False"
| "truthy (JBool b) = b"
| "truthy (JNum n) = (n \<noteq> 0)"
| "truthy (JStr s) = (s \<noteq> [])"
| "truthy (JBytes bs) = True"
| "truthy (JArr xs) = True"
| "truthy (JObj kvs) = True"

text \<open>\<open>typeof v === 'boolean'\<close>.\<close>

fun is_boolean :: "jsval \<Rightarrow> bool" where
  "is_boolean (JBool b) = True"
| "is_boolean v = False"

section \<open>opencode.ts: the text of a provider response\<close>

text \<open>
  A response part carries its \<open>type\<close> tag; a part of any type may carry a \<open>text\<close>
  field (reasoning parts do), and a part may lack it.
\<close>

record part =
  part_type :: string
  part_text :: "string option"

definition no_parts_error :: string where
  \<open>no_parts_error = ''{"status":"error","summary":"opencode response contained no parts"}''\<close>

definition no_text_parts_error :: string where
  \<open>no_text_parts_error = ''{"status":"error","summary":"opencode response contained no text parts"}''\<close>

text \<open>\<open>Array.prototype.at(-1)\<close>: the last element, \<open>undefined\<close> on the empty array.\<close>

definition at_last :: "'a list \<Rightarrow> 'a option" where
  "at_last xs = (if xs = [] then None else Some (last xs))"

definition is_text_part :: "part \<Rightarrow> bool" where
  "is_text_part p = (part_type p = ''text'')"

text \<open>
  \<open>extractResponseText\<close>: the argument is \<open>None\<close> when the caller passes nothing
  that is an array.
\<close>

definition extractResponseText :: "part list option \<Rightarrow> string" where
  "extractResponseText response =
     (case response of
        None \<Rightarrow> no_parts_error
      | Some parts \<Rightarrow>
          if parts = [] then no_parts_error
          else (case at_last (filter is_text_part parts) of
                  None \<Rightarrow> no_text_parts_error
                | Some textPart \<Rightarrow>
                    (case part_text textPart of
                       None \<Rightarrow> no_text_parts_error
                     | Some t \<Rightarrow> if t \<noteq> [] then t else no_text_parts_error)))"

text \<open>A part of type \<open>text\<close> whose text is not empty: the parts claim C7 speaks of.\<close>

definition nonempty_text_part :: "part \<Rightarrow> bool" where
  "nonempty_text_part p = (is_text_part p \<and> part_text p \<noteq> None \<and> part_text p \<noteq> Some [])"

section \<open>opencode.ts: the provider cache\<close>

text \<open>
  The module keeps one opencode server (\<open>opencodeServer\<close>) and one client per working
  directory (\<open>opencodeClients\<close>). The state below adds the files the module reads and
  writes and a log of the servers the SDK was asked to close.

  A file is either a text that is no JSON document, or the serialisation of a configuration
  document (\<open>JSON.stringify(config, null, 2)\<close> and a newline, read back by
  \<open>JSON.parse\<close>). Directories are not tracked: \<open>mkdir\<close> with \<open>recursive: true\<close>
  either fails or leaves every file as it is. The paths of \<open>denied\<close> are those where a
  file-system call fails with an error other than \<open>ENOENT\<close>.
\<close>

datatype permission = Allow | Ask | Deny

record agent_config =
  ac_description :: "string option"
  ac_mode :: string
  ac_model :: string
  ac_prompt :: string
  ac_tools :: "string \<rightharpoonup> bool"
  ac_permission :: "string \<rightharpoonup> permission"

record opencode_config =
  cfg_schema :: "string option"
  cfg_agent :: "(string \<rightharpoonup> agent_config) option"

datatype file_content = Text string | Json opencode_config

record server =
  url :: string

record client =
  baseUrl :: string
  client_directory :: string

datatype error = IOError string | SyntaxError | Error string

record oc_state =
  opencodeServer :: "server option"
  opencodeClients :: "string \<rightharpoonup> client"
  closed :: "string list"
  files :: "string \<rightharpoonup> file_content"
  denied :: "string set"

definition resetOpencodeClients :: "oc_state \<Rightarrow> oc_state" where
  "resetOpencodeClients st = st\<lparr>opencodeClients := Map.empty\<rparr>"

text \<open>
  The \<open>close\<close> method of the object that getOpencodeServer stores: it closes the SDK
  server, clears the singleton and drops the clients.
\<close>

definition server_close :: "server \<Rightarrow> oc_state \<Rightarrow> oc_state" where
  "server_close srv st =
     resetOpencodeClients (st\<lparr>closed := closed st @ [url srv], opencodeServer := None\<rparr>)"

definition closeOpencodeServer :: "oc_state \<Rightarrow> oc_state" where
  "closeOpencodeServer st =
     resetOpencodeClients
       (case opencodeServer st of
          Some srv \<Rightarrow> (server_close srv st)\<lparr>opencodeServer := None\<rparr>
        | None \<Rightarrow> st)"

text \<open>
  getOpencodeServer: \<open>created\<close> is what the SDK's \<open>createOpencodeServer\<close> answers when
  it is called, the URL of the new server or its failure.
\<close>

definition getOpencodeServer :: "error + string \<Rightarrow> oc_state \<Rightarrow> (error + server) \<times> oc_state" where
  "getOpencodeServer created st =
     (case opencodeServer st of
        Some srv \<Rightarrow> (Inr srv, st)
      | None \<Rightarrow>
          (case created of
             Inl e \<Rightarrow> (Inl e, st)
           | Inr u \<Rightarrow> (Inr \<lparr>url = u\<rparr>, st\<lparr>opencodeServer := Some \<lparr>url = u\<rparr>\<rparr>)))"

definition getOpencodeClient ::
  "error + string \<Rightarrow> string \<Rightarrow> oc_state \<Rightarrow> (error + client) \<times> oc_state" where
  "getOpencodeClient created directory st =
     (let st1 = (if opencodeServer st = None then resetOpencodeClients st else st) in
      case opencodeClients st1 directory of
        Some c \<Rightarrow> (Inr c, st1)
      | None \<Rightarrow>
          (case getOpencodeServer created st1 of
             (Inl e, st2) \<Rightarrow> (Inl e, st2)
           | (Inr srv, st2) \<Rightarrow>
               (let opencode = \<lparr>baseUrl = url srv, client_directory = directory\<rparr> in
                (Inr opencode, st2\<lparr>opencodeClients := (opencodeClients st2)(directory \<mapsto> opencode)\<rparr>))))"

section \<open>opencode.ts: writing an agent definition\<close>

definition TOOL_KEYS :: "string list" where
  "TOOL_KEYS = [''read'', ''write'', ''edit'', ''bash'', ''grep'', ''glob'', ''list'', ''patch'',
     ''todowrite'', ''todoread'', ''webfetch'']"

definition PERMISSION_KEYS :: "string list" where
  "PERMISSION_KEYS = [''edit'', ''bash'', ''webfetch'']"

text \<open>
  The \<open>tools\<close> argument is optional: \<open>None\<close> is \<open>undefined\<close>. The declared type
  promises booleans, the code tests for them, so the map holds any value.
  \<open>tools_get\<close> is \<open>tools[key]\<close> on a present map.
\<close>

type_synonym tool_options = "(string \<rightharpoonup> jsval) option"

definition tools_get :: "(string \<rightharpoonup> jsval) \<Rightarrow> string \<Rightarrow> jsval" where
  "tools_get m key = (case m key of None \<Rightarrow> JUndefined | Some v \<Rightarrow> v)"

text \<open>\<open>tools && typeof tools[key] === 'boolean' ? tools[key] : false\<close>\<close>

definition tool_value :: "tool_options \<Rightarrow> string \<Rightarrow> jsval" where
  "tool_value tools key =
     (case tools of
        None \<Rightarrow> JBool False
      | Some m \<Rightarrow> if is_boolean (tools_get m key) then tools_get m key else JBool False)"

text \<open>\<open>tools && tools[key] ? 'allow' : 'deny'\<close>\<close>

definition tool_permission :: "tool_options \<Rightarrow> string \<Rightarrow> permission" where
  "tool_permission tools key =
     (case tools of
        None \<Rightarrow> Deny
      | Some m \<Rightarrow> if truthy (tools_get m key) then Allow else Deny)"

definition permission_name :: "permission \<Rightarrow> string" where
  "permission_name p = (case p of Allow \<Rightarrow> ''allow'' | Ask \<Rightarrow> ''ask'' | Deny \<Rightarrow> ''deny'')"

text \<open>
  \<open>Array.prototype.join\<close> on strings, and \<open>path.join\<close> without the normalisation of
  \<open>.\<close>, \<open>..\<close> and repeated separators that Node applies.
\<close>

fun join :: "string \<Rightarrow> string list \<Rightarrow> string" where
  "join sep [] = []"
| "join sep [x] = x"
| "join sep (x # y # ys) = x @ sep @ join sep (y # ys)"

definition path_join :: "string list \<Rightarrow> string" where
  "path_join segments = join ''/'' segments"

text \<open>
  \<open>model.split('/')\<close>, and the template that prints its first two elements with a slash
  between them: a missing second element prints as \<open>undefined\<close>.
\<close>

fun split_slash :: "string \<Rightarrow> string list" where
  "split_slash [] = [[]]"
| "split_slash (c # cs) =
     (if c = CHR ''/'' then [] # split_slash cs
      else (case split_slash cs of [] \<Rightarrow> [[c]] | x # xs \<Rightarrow> (c # x) # xs))"

definition model_id :: "string \<Rightarrow> string" where
  "model_id model =
     (case split_slash model of
        [] \<Rightarrow> ''undefined/undefined''
      | [providerID] \<Rightarrow> providerID @ ''/undefined''
      | providerID # modelID # rest \<Rightarrow> providerID @ ''/'' @ modelID)"

text \<open>The file name: every character outside \<open>[a-z0-9-_.]\<close>, whatever its case, becomes
  a dash, and the result is put in lower case.\<close>

definition is_safe_char :: "char \<Rightarrow> bool" where
  "is_safe_char c =
     ((CHR ''a'' \<le> c \<and> c \<le> CHR ''z'') \<or> (CHR ''A'' \<le> c \<and> c \<le> CHR ''Z'')
      \<or> (CHR ''0'' \<le> c \<and> c \<le> CHR ''9'') \<or> c = CHR ''-'' \<or> c = CHR ''_'' \<or> c = CHR ''.'')"

definition to_lower :: "char \<Rightarrow> char" where
  "to_lower c =
     (if CHR ''A'' \<le> c \<and> c \<le> CHR ''Z'' then char_of (of_char c + (32::nat)) else c)"

definition agent_filename :: "string \<Rightarrow> string" where
  "agent_filename name =
     map to_lower (map (\<lambda>c. if is_safe_char c then c else CHR ''-'') name) @ ''.md''"

definition tool_line :: "tool_options \<Rightarrow> string \<Rightarrow> string" where
  "tool_line tools key =
     ''  '' @ key @ '': '' @ (if truthy (tool_value tools key) then ''true'' else ''false'')"

definition permission_line :: "tool_options \<Rightarrow> string \<Rightarrow> string" where
  "permission_line tools key = ''  '' @ key @ '': '' @ permission_name (tool_permission tools key)"

definition frontmatterLines :: "string \<Rightarrow> string \<Rightarrow> string \<Rightarrow> tool_options \<Rightarrow> string list" where
  "frontmatterLines name model instructions tools =
     [''---'', ''description: '' @ name, ''mode: primary'', ''model: '' @ model_id model, ''tools:'']
     @ map (tool_line tools) TOOL_KEYS
     @ [''permission:'']
     @ map (permission_line tools) PERMISSION_KEYS
     @ [''---'', [], instructions]"

definition agent_file_path :: "string \<Rightarrow> string \<Rightarrow> string" where
  "agent_file_path directory name =
     path_join [path_join [directory, ''.opencode'', ''agent''], agent_filename name]"

text \<open>\<open>fs.promises.access(filePath)\<close>, true when it resolves and false when it rejects.\<close>

definition file_exists :: "oc_state \<Rightarrow> string \<Rightarrow> bool" where
  "file_exists st p = (files st p \<noteq> None \<and> p \<notin> denied st)"

definition createAgentViaMarkdown ::
  "oc_state \<Rightarrow> string \<Rightarrow> string \<Rightarrow> string \<Rightarrow> string \<Rightarrow> tool_options \<Rightarrow> (error + string) \<times> oc_state"
where
  "createAgentViaMarkdown st directory name model instructions tools =
     (let agentsDir = path_join [directory, ''.opencode'', ''agent''];
          filePath = agent_file_path directory name
      in
      if agentsDir \<in> denied st then (Inl (IOError agentsDir), st)
      else if file_exists st filePath then (Inr filePath, st)
      else if filePath \<in> denied st then (Inl (IOError filePath), st)
      else
        (Inr filePath,
         closeOpencodeServer
           (st\<lparr>files := (files st)(filePath \<mapsto>
              Text (join [CHR 0x0A] (frontmatterLines name model instructions tools)))\<rparr>)))"

text \<open>The loop over \<open>TOOL_KEYS\<close> of createAgentViaConfig, one key at a time.\<close>

definition config_tool_step :: "tool_options \<Rightarrow> string \<Rightarrow> agent_config \<Rightarrow> agent_config" where
  "config_tool_step tools key agentConfig =
     (let ac1 = agentConfig\<lparr>ac_tools := (ac_tools agentConfig)(key \<mapsto> truthy (tool_value tools key))\<rparr>
      in if key = ''edit'' \<or> key = ''bash'' \<or> key = ''webfetch''
         then ac1\<lparr>ac_permission := (ac_permission ac1)(key \<mapsto> tool_permission tools key)\<rparr>
         else ac1)"

definition new_agent_config :: "string \<Rightarrow> string \<Rightarrow> string \<Rightarrow> tool_options \<Rightarrow> agent_config" where
  "new_agent_config name model instructions tools =
     fold (config_tool_step tools) TOOL_KEYS
       \<lparr>ac_description = Some name, ac_mode = ''primary'', ac_model = model_id model,
        ac_prompt = instructions, ac_tools = Map.empty, ac_permission = Map.empty\<rparr>"

definition default_config :: opencode_config where
  "default_config = \<lparr>cfg_schema = Some ''https://opencode.ai/config.json'', cfg_agent = None\<rparr>"

text \<open>
  The names every object inherits from \<open>Object.prototype\<close>: \<open>obj[name]\<close> is a function
  for each of them, and the prototype itself for \<open>__proto__\<close>, on any object that has no
  property of its own under that name.
\<close>

definition Object_prototype_names :: "string list" where
  "Object_prototype_names =
     [''constructor'', ''__defineGetter__'', ''__defineSetter__'', ''hasOwnProperty'',
      ''__lookupGetter__'', ''__lookupSetter__'', ''isPrototypeOf'', ''propertyIsEnumerable'',
      ''toString'', ''valueOf'', ''__proto__'', ''toLocaleString'']"

text \<open>
  createAgentViaConfig. A parsed document is taken to be a JSON object whose \<open>agent\<close>
  member, when there is one, is an object of agent definitions, as the declared type says.
  The test \<open>config.agent?.[name]\<close> asks whether the value found under \<open>name\<close> is
  truthy: an agent definition is an object and so truthy, and so is what the object inherits
  under a name of \<open>Object.prototype\<close>.
\<close>

definition createAgentViaConfig ::
  "oc_state \<Rightarrow> string \<Rightarrow> string \<Rightarrow> string \<Rightarrow> string \<Rightarrow> tool_options \<Rightarrow> (error + string) \<times> oc_state"
where
  "createAgentViaConfig st directory name model instructions tools =
     (let configPath = path_join [directory, ''opencode.json''] in
      if configPath \<in> denied st then (Inl (IOError configPath), st)
      else
        (case (case files st configPath of
                 None \<Rightarrow> Inr default_config
               | Some (Text raw) \<Rightarrow> Inl SyntaxError
               | Some (Json c) \<Rightarrow> Inr c) of
           Inl e \<Rightarrow> (Inl e, st)
         | Inr config \<Rightarrow>
             (let agents = (case cfg_agent config of None \<Rightarrow> Map.empty | Some m \<Rightarrow> m) in
              if agents name \<noteq> None \<or> name \<in> set Object_prototype_names
              then (Inr configPath, st)
              else
                (Inr configPath,
                 closeOpencodeServer
                   (st\<lparr>files := (files st)(configPath \<mapsto>
                      Json (config\<lparr>cfg_agent :=
                        Some (agents(name \<mapsto> new_agent_config name model instructions tools))\<rparr>))\<rparr>)))))"


section \<open>The process runner defaultRunCliArgs\<close>

text \<open>
  \<open>String(v)\<close>. An array prints its elements separated by commas, with nothing for
  \<open>null\<close> and \<open>undefined\<close>; a byte array prints its bytes in decimal.
\<close>

fun show_nat :: "nat \<Rightarrow> string" where
  "show_nat n =
     (if n < 10 then [char_of (48 + n)] else show_nat (n div 10) @ [char_of (48 + n mod 10)])"

declare show_nat.simps [simp del]

definition show_int :: "int \<Rightarrow> string" where
  "show_int i = (if i < 0 then CHR ''-'' # show_nat (nat (- i)) else show_nat (nat i))"

fun String_js :: "jsval \<Rightarrow> string" where
  "String_js JUndefined = ''undefined''"
| "String_js JNull = ''null''"
| "String_js (JBool b) = (if b then ''true'' else ''false'')"
| "String_js (JNum n) = show_int n"
| "String_js (JStr s) = s"
| "String_js (JBytes bs) = join '','' (map (\<lambda>b. show_nat (unat b)) bs)"
| "String_js (JArr xs) =
     join '','' (map (\<lambda>x. if x = JUndefined \<or> x = JNull then [] else String_js x) xs)"
| "String_js (JObj kvs) = ''[object Object]''"

text \<open>
  The text encoding of the runtime: \<open>Buffer.from(string)\<close> and writing a string to a
  stream encode it as UTF-8, \<open>buffer.toString()\<close> decodes UTF-8. The two functions belong
  to Node and are parameters of the model.
\<close>

record text_codec =
  encode :: "string \<Rightarrow> bytes"
  decode :: "bytes \<Rightarrow> string"

text \<open>The one-byte-per-character codec, enough for ASCII examples.\<close>

definition ascii_codec :: text_codec where
  "ascii_codec = \<lparr>encode = map (\<lambda>c. of_nat (of_char c)), decode = map (\<lambda>b. char_of (unat b))\<rparr>"

datatype capture = CaptureText | CaptureBuffer | CaptureBoth

text \<open>
  The fields of the invocation that the runner reads: \<open>input.step.command\<close>,
  \<open>input.args\<close> (an object, keys in insertion order and distinct; \<open>None\<close> when
  it is missing), \<open>input.cwd\<close>, \<open>input.stdinValue\<close> and \<open>input.capture\<close>.
\<close>

record cli_invocation =
  inv_command :: string
  inv_args :: "(string \<times> jsval) list option"
  inv_cwd :: "string option"
  inv_stdinValue :: jsval
  inv_capture :: "capture option"

text \<open>
  \<open>Object.keys\<close>: the keys in insertion order (the engine lists integer-like keys first;
  the runner sorts the keys next, which makes the difference invisible), and
  \<open>obj[key]\<close>.
\<close>

definition Object_keys :: "(string \<times> jsval) list \<Rightarrow> string list" where
  "Object_keys obj = map fst obj"

definition obj_get :: "(string \<times> jsval) list option \<Rightarrow> string \<Rightarrow> jsval" where
  "obj_get obj key =
     (case obj of
        None \<Rightarrow> JUndefined
      | Some kvs \<Rightarrow> (case map_of kvs key of None \<Rightarrow> JUndefined | Some v \<Rightarrow> v))"

definition cli_argv :: "cli_invocation \<Rightarrow> string list" where
  "cli_argv input =
     map (\<lambda>key. String_js (obj_get (inv_args input) key))
       (sort (Object_keys (case inv_args input of None \<Rightarrow> [] | Some kvs \<Rightarrow> kvs)))"

record spawn_call =
  sp_command :: string
  sp_argv :: "string list"
  sp_cwd :: "string option"
  sp_shell :: bool

text \<open>
  What the child process does, as the runner sees it: whether it has a stdin stream, and the
  events it emits in order. A data event carries a buffer or a string; the close event
  carries the exit code, \<open>None\<close> for \<open>null\<close>. \<open>ErrorEvent\<close> is the
  \<open>error\<close> event of the child itself, \<open>StdinError\<close> the \<open>error\<close> event of its
  stdin stream, raised when a write fails (the child has exited or closed the pipe before
  reading what was written).
\<close>

datatype chunk = BufferChunk bytes | StringChunk string

datatype child_event =
    StdoutData chunk
  | StderrData chunk
  | ErrorEvent string
  | StdinError string
  | CloseEvent "int option"

record child_process =
  has_stdin :: bool
  events :: "child_event list"

text \<open>The stdin stream of the child: the chunks written to it, as bytes, and whether it
  has been ended.\<close>

record stdin_state =
  stdin_chunks :: "bytes list"
  stdin_ended :: bool

definition stdin_end_string :: "text_codec \<Rightarrow> string \<Rightarrow> stdin_state \<Rightarrow> stdin_state" where
  "stdin_end_string codec s st =
     st\<lparr>stdin_chunks := stdin_chunks st @ [encode codec s], stdin_ended := True\<rparr>"

definition stdin_end_buffer :: "bytes \<Rightarrow> stdin_state \<Rightarrow> stdin_state" where
  "stdin_end_buffer b st = st\<lparr>stdin_chunks := stdin_chunks st @ [b], stdin_ended := True\<rparr>"

definition feed_stdin :: "text_codec \<Rightarrow> cli_invocation \<Rightarrow> child_process \<Rightarrow> stdin_state" where
  "feed_stdin codec input child =
     (let fresh = \<lparr>stdin_chunks = [], stdin_ended = False\<rparr> in
      if inv_stdinValue input \<noteq> JUndefined \<and> has_stdin child then
        (case inv_stdinValue input of
           JStr s \<Rightarrow> stdin_end_string codec s fresh
         | JBytes b \<Rightarrow> stdin_end_buffer b fresh
         | v \<Rightarrow> stdin_end_string codec (String_js v) fresh)
      else fresh)"

record cli_result =
  r_stdout :: string
  r_stderr :: string
  r_stdoutBuffer :: "bytes option"
  r_stderrBuffer :: "bytes option"
  r_exitCode :: int

datatype settlement = Resolved cli_result | Rejected string

text \<open>
  The variables the event handlers share, and the promise: \<open>None\<close> while it is pending.
  A promise settles once; later calls of \<open>resolve\<close> and \<open>reject\<close> do nothing.
  \<open>uncaught\<close> holds the exception that no handler caught: the runner registers
  listeners on \<open>child.stdout\<close>, \<open>child.stderr\<close> and \<open>child\<close> only, so an
  \<open>error\<close> event of \<open>child.stdin\<close> is thrown as an uncaught exception, which ends
  the Node process; no handler runs after it.
\<close>

record run_state =
  stdout :: string
  stderr :: string
  stdoutChunks :: "bytes list"
  stderrChunks :: "bytes list"
  promise :: "settlement option"
  uncaught :: "string option"

definition chunk_buffer :: "text_codec \<Rightarrow> chunk \<Rightarrow> bytes" where
  "chunk_buffer codec c = (case c of BufferChunk b \<Rightarrow> b | StringChunk s \<Rightarrow> encode codec s)"

definition settle :: "settlement \<Rightarrow> run_state \<Rightarrow> run_state" where
  "settle s st = (if promise st = None then st\<lparr>promise := Some s\<rparr> else st)"

definition on_close :: "text_codec \<Rightarrow> bool \<Rightarrow> bool \<Rightarrow> int option \<Rightarrow> run_state \<Rightarrow> run_state" where
  "on_close codec captureBuffer captureText code st =
     (let stdoutBuffer = (if captureBuffer then Some (concat (stdoutChunks st)) else None);
          stderrBuffer = (if captureBuffer then Some (concat (stderrChunks st)) else None);
          st1 = (case stdoutBuffer of
                   Some b \<Rightarrow> if \<not> captureText then st\<lparr>stdout := decode codec b\<rparr> else st
                 | None \<Rightarrow> st);
          st2 = (case stderrBuffer of
                   Some b \<Rightarrow> if \<not> captureText then st1\<lparr>stderr := decode codec b\<rparr> else st1
                 | None \<Rightarrow> st1)
      in settle (Resolved \<lparr>r_stdout = stdout st2, r_stderr = stderr st2,
                   r_stdoutBuffer = stdoutBuffer, r_stderrBuffer = stderrBuffer,
                   r_exitCode = (case code of None \<Rightarrow> - 1 | Some c \<Rightarrow> c)\<rparr>) st2)"

fun handle_event :: "text_codec \<Rightarrow> bool \<Rightarrow> bool \<Rightarrow> child_event \<Rightarrow> run_state \<Rightarrow> run_state" where
  "handle_event codec captureBuffer captureText (StdoutData c) st =
     (let buffer = chunk_buffer codec c;
          st1 = (if captureBuffer then st\<lparr>stdoutChunks := stdoutChunks st @ [buffer]\<rparr> else st)
      in if captureText then st1\<lparr>stdout := stdout st1 @ decode codec buffer\<rparr> else st1)"
| "handle_event codec captureBuffer captureText (StderrData c) st =
     (let buffer = chunk_buffer codec c;
          st1 = (if captureBuffer then st\<lparr>stderrChunks := stderrChunks st @ [buffer]\<rparr> else st)
      in if captureText then st1\<lparr>stderr := stderr st1 @ decode codec buffer\<rparr> else st1)"
| "handle_event codec captureBuffer captureText (ErrorEvent err) st = settle (Rejected err) st"
| "handle_event codec captureBuffer captureText (StdinError err) st = st\<lparr>uncaught := Some err\<rparr>"
| "handle_event codec captureBuffer captureText (CloseEvent code) st =
     on_close codec captureBuffer captureText code st"

definition deliver :: "text_codec \<Rightarrow> bool \<Rightarrow> bool \<Rightarrow> child_event \<Rightarrow> run_state \<Rightarrow> run_state" where
  "deliver codec captureBuffer captureText e st =
     (if uncaught st \<noteq> None then st else handle_event codec captureBuffer captureText e st)"

definition initial_run :: run_state where
  "initial_run = \<lparr>stdout = [], stderr = [], stdoutChunks = [], stderrChunks = [], promise = None,
     uncaught = None\<rparr>"

record cli_run =
  spawned :: spawn_call
  stdin :: stdin_state
  outcome :: "settlement option"
  uncaught_exception :: "string option"

definition defaultRunCliArgs :: "text_codec \<Rightarrow> cli_invocation \<Rightarrow> child_process \<Rightarrow> cli_run" where
  "defaultRunCliArgs codec input child =
     (let captureBuffer = (inv_capture input = Some CaptureBuffer \<or> inv_capture input = Some CaptureBoth);
          captureText = (inv_capture input = Some CaptureText \<or> inv_capture input = Some CaptureBoth);
          argv = cli_argv input;
          final = fold (deliver codec captureBuffer captureText) (events child) initial_run
      in \<lparr>spawned = \<lparr>sp_command = inv_command input, sp_argv = argv, sp_cwd = inv_cwd input,
                      sp_shell = False\<rparr>,
          stdin = feed_stdin codec input child,
          outcome = promise final,
          uncaught_exception = uncaught final\<rparr>)"

text \<open>Events that leave the promise pending, and the bytes a stream has delivered.\<close>

fun is_data :: "child_event \<Rightarrow> bool" where
  "is_data (StdoutData c) = True"
| "is_data (StderrData c) = True"
| "is_data e = False"

fun stdout_bytes :: "text_codec \<Rightarrow> child_event list \<Rightarrow> bytes" where
  "stdout_bytes codec [] = []"
| "stdout_bytes codec (StdoutData c # es) = chunk_buffer codec c @ stdout_bytes codec es"
| "stdout_bytes codec (e # es) = stdout_bytes codec es"

fun stderr_bytes :: "text_codec \<Rightarrow> child_event list \<Rightarrow> bytes" where
  "stderr_bytes codec [] = []"
| "stderr_bytes codec (StderrData c # es) = chunk_buffer codec c @ stderr_bytes codec es"
| "stderr_bytes codec (e # es) = stderr_bytes codec es"


section \<open>Example invocations and child processes\<close>

text \<open>
  The second step of the binary pipeline of the test suite (\<open>xxd -p\<close> fed with five
  bytes), the appending step of the CLI workflow, the command \<open>true\<close> given a
  mebibyte on its stdin, more than a pipe holds, and children that exit without reading their
  stdin (the pending write then fails), exit with a non-zero code, are killed by a signal,
  cannot be spawned, or print five bytes in two chunks.
\<close>

definition xxd_invocation :: cli_invocation where
  "xxd_invocation = \<lparr>inv_command = ''xxd'', inv_args = Some [(''arg0'', JStr ''-p'')],
     inv_cwd = Some ''/w'', inv_stdinValue = JBytes [0, 1, 2, 3, 4], inv_capture = Some CaptureBoth\<rparr>"

definition xxd_child :: child_process where
  "xxd_child = \<lparr>has_stdin = True,
     events = [StdoutData (BufferChunk [0x30, 0x30, 0x30, 0x31]), StdoutData (BufferChunk [0x30, 0x32]),
               CloseEvent (Some 0)]\<rparr>"

definition true_invocation :: cli_invocation where
  "true_invocation = \<lparr>inv_command = ''true'', inv_args = Some [], inv_cwd = Some ''/w'',
     inv_stdinValue = JStr (replicate 1048576 (CHR ''x'')), inv_capture = Some CaptureText\<rparr>"

definition unread_child :: child_process where
  "unread_child = \<lparr>has_stdin = True, events = [StdinError ''write EPIPE'', CloseEvent (Some 0)]\<rparr>"

definition failing_child :: child_process where
  "failing_child = \<lparr>has_stdin = True, events = [StderrData (StringChunk ''no such file''), CloseEvent (Some 2)]\<rparr>"

definition killed_child :: child_process where
  "killed_child = \<lparr>has_stdin = True, events = [CloseEvent None]\<rparr>"

definition unspawned_child :: child_process where
  "unspawned_child = \<lparr>has_stdin = True, events = [ErrorEvent ''spawn xxd ENOENT'', CloseEvent (Some (- 2))]\<rparr>"

definition tee_invocation :: cli_invocation where
  "tee_invocation = \<lparr>inv_command = ''tee'',
     inv_args = Some [(''flag'', JStr ''-a''), (''file'', JStr ''cli-output.txt'')],
     inv_cwd = Some ''/w'', inv_stdinValue = JStr ''line'', inv_capture = Some CaptureBoth\<rparr>"

definition printf_child :: child_process where
  "printf_child = \<lparr>has_stdin = True,
     events = [StdoutData (BufferChunk [0, 1]), StderrData (StringChunk ''w''),
               StdoutData (BufferChunk [2, 3, 4]), CloseEvent (Some 0)]\<rparr>"


section \<open>The words of the claims about agent definitions\<close>

text \<open>
  A tool is granted when the map holds the boolean \<open>true\<close> for it. The declared type
  \<open>ToolOptions\<close> lets a key be omitted or hold a boolean; \<open>given_truthy\<close> is what
  the permission entries test, on any value.
\<close>

definition granted :: "tool_options \<Rightarrow> string \<Rightarrow> bool" where
  "granted tools key = (case tools of None \<Rightarrow> False | Some m \<Rightarrow> m key = Some (JBool True))"

definition given_truthy :: "tool_options \<Rightarrow> string \<Rightarrow> bool" where
  "given_truthy tools key =
     (case tools of None \<Rightarrow> False | Some m \<Rightarrow> (case m key of None \<Rightarrow> False | Some v \<Rightarrow> truthy v))"

definition boolean_or_absent :: "tool_options \<Rightarrow> string \<Rightarrow> bool" where
  "boolean_or_absent tools key =
     (case tools of None \<Rightarrow> True | Some m \<Rightarrow> (case m key of None \<Rightarrow> True | Some v \<Rightarrow> is_boolean v))"

text \<open>The configuration file of the directory holds a definition under the name.\<close>

definition config_has_agent :: "oc_state \<Rightarrow> string \<Rightarrow> string \<Rightarrow> bool" where
  "config_has_agent st directory name =
     (case files st (path_join [directory, ''opencode.json'']) of
        Some (Json c) \<Rightarrow> (case cfg_agent c of None \<Rightarrow> False | Some m \<Rightarrow> m name \<noteq> None)
      | _ \<Rightarrow> False)"

definition fresh_state :: oc_state where
  "fresh_state = \<lparr>opencodeServer = None, opencodeClients = Map.empty, closed = [], files = Map.empty, denied = {}\<rparr>"

text \<open>States for the examples: nothing cached, and a server with one client for \<open>/w\<close>.\<close>

definition cached_state :: oc_state where
  "cached_state = snd (getOpencodeClient (Inr ''http://127.0.0.1:4096'') ''/w'' fresh_state)"

definition after_markdown :: oc_state where
  "after_markdown = snd (createAgentViaMarkdown cached_state ''/w'' ''helper'' ''p/m'' ''hi'' None)"

definition after_config :: oc_state where
  "after_config = snd (createAgentViaConfig cached_state ''/w'' ''helper'' ''p/m'' ''hi'' None)"


section \<open>workflow-builder.ts: from Zod schemas to parser schemas\<close>

text \<open>
  A Zod schema as the converter reads it: the type name of its \<open>_def\<close> and the fields
  that belong to it. \<open>ZOther\<close> stands for every type name the converter does not
  handle. A check carries its \<open>kind\<close> (possibly missing) and its \<open>value\<close>; a literal
  carries \<open>value\<close> and, possibly, the array \<open>values\<close>; an array may lack its
  element schema. The shape of an object lists its properties in order, with distinct keys.
\<close>

datatype check = Check (kind: "string option") (check_value: jsval)

datatype zod =
    ZUnknown
  | ZAny
  | ZString "check list"
  | ZNumber "check list"
  | ZBoolean
  | ZArray "zod option"
  | ZObject "(string \<times> zod) list"
  | ZLiteral jsval "jsval list option"
  | ZEnum "string list"
  | ZUnion "zod list"
  | ZDefault jsval zod
  | ZOptional zod
  | ZNullable zod
  | ZEffects zod
  | ZOther string

text \<open>
  The parser schema under construction (\<open>ParserDraft\<close>). A field that holds
  \<open>JUndefined\<close>, \<open>None\<close> or \<open>False\<close> is a property the object does not have.
\<close>

datatype parser_draft = ParserDraft
  (pd_type: string)
  (pd_enum: "jsval list option")
  (pd_default: jsval)
  (pd_minLength: jsval)
  (pd_maxLength: jsval)
  (pd_minimum: jsval)
  (pd_maximum: jsval)
  (pd_integer: bool)
  (pd_items: "parser_draft option")
  (pd_properties: "(string \<times> parser_draft) list option")
  (pd_required: "string list option")
  (pd_additionalProperties: "bool option")

definition draft :: "string \<Rightarrow> parser_draft" where
  "draft t =
     ParserDraft t None JUndefined JUndefined JUndefined JUndefined JUndefined False None None None None"

definition with_default :: "jsval \<Rightarrow> parser_draft \<Rightarrow> parser_draft" where
  "with_default v d =
     ParserDraft (pd_type d) (pd_enum d) v (pd_minLength d) (pd_maxLength d) (pd_minimum d)
       (pd_maximum d) (pd_integer d) (pd_items d) (pd_properties d) (pd_required d)
       (pd_additionalProperties d)"

definition with_enum :: "jsval list \<Rightarrow> parser_draft \<Rightarrow> parser_draft" where
  "with_enum vs d =
     ParserDraft (pd_type d) (Some vs) (pd_default d) (pd_minLength d) (pd_maxLength d) (pd_minimum d)
       (pd_maximum d) (pd_integer d) (pd_items d) (pd_properties d) (pd_required d)
       (pd_additionalProperties d)"

fun unwrapEffects :: "zod \<Rightarrow> zod" where
  "unwrapEffects (ZEffects schema) = unwrapEffects schema"
| "unwrapEffects schema = schema"

record unwrapped =
  u_inner :: zod
  u_defaultValue :: jsval
  u_required :: bool

text \<open>The first step of unwrapSchema: a default wrapper gives its value and clears
  \<open>required\<close>.\<close>

fun strip_default :: "zod \<Rightarrow> jsval \<times> zod \<times> bool" where
  "strip_default (ZDefault defaultValue innerType) = (defaultValue, innerType, False)"
| "strip_default current = (JUndefined, current, True)"

lemma size_unwrapEffects: "size (unwrapEffects schema) \<le> size schema"
  by (induction schema rule: unwrapEffects.induct) simp_all

lemma size_strip_default: "strip_default current = (dv, next, req) \<Longrightarrow> size next \<le> size current"
  by (cases current) auto

lemma size_optional_inner:
  assumes "(dv, ZOptional innerType, req) = strip_default (unwrapEffects schema)"
  shows "size innerType < size schema"
proof -
  have "size (ZOptional innerType) \<le> size (unwrapEffects schema)"
    using assms size_strip_default[of "unwrapEffects schema" dv "ZOptional innerType" req] by simp
  with size_unwrapEffects[of schema] show ?thesis by simp
qed

function unwrapSchema :: "zod \<Rightarrow> error + unwrapped" where
  "unwrapSchema schema =
     (case strip_default (unwrapEffects schema) of
        (defaultValue, current, required) \<Rightarrow>
          (case (case current of
                   ZOptional innerType \<Rightarrow>
                     (case unwrapSchema innerType of
                        Inl e \<Rightarrow> Inl e
                      | Inr nested \<Rightarrow>
                          Inr (if defaultValue = JUndefined \<and> u_defaultValue nested \<noteq> JUndefined
                               then u_defaultValue nested else defaultValue,
                               u_inner nested, False))
                 | _ \<Rightarrow> Inr (defaultValue, current, required)) of
             Inl e \<Rightarrow> Inl e
           | Inr (defaultValue', current', required') \<Rightarrow>
               (case current' of
                  ZNullable t \<Rightarrow> Inl (Error ''Nullable schemas are not supported for workflow conversion'')
                | _ \<Rightarrow> Inr \<lparr>u_inner = unwrapEffects current', u_defaultValue = defaultValue',
                           u_required = required'\<rparr>)))"
  by pat_completeness auto
termination
  by (relation "measure size") (auto dest: size_optional_inner)

declare unwrapSchema.simps [simp del]

lemma size_unwrapSchema: "unwrapSchema schema = Inr u \<Longrightarrow> size (u_inner u) \<le> size schema"
proof (induction schema arbitrary: u rule: unwrapSchema.induct)
  case (1 schema)
  obtain dv cur req where sd: "strip_default (unwrapEffects schema) = (dv, cur, req)"
    by (cases "strip_default (unwrapEffects schema)") auto
  have cur_le: "size cur \<le> size schema"
    using size_strip_default[OF sd] size_unwrapEffects[of schema] by simp
  show ?case
  proof (cases "\<exists>innerType. cur = ZOptional innerType")
    case True
    then obtain innerType where c: "cur = ZOptional innerType" by blast
    from "1.prems" sd c obtain nested where n: "unwrapSchema innerType = Inr nested"
      and u: "u_inner u = unwrapEffects (u_inner nested)"
      by (subst (asm) unwrapSchema.simps) (auto split: sum.splits zod.splits)
    have "size (u_inner nested) \<le> size innerType"
      using "1.IH"[OF sd[symmetric] refl c n] .
    with u size_unwrapEffects[of "u_inner nested"] c cur_le show ?thesis by simp
  next
    case False
    with "1.prems" sd have "u_inner u = unwrapEffects cur"
      by (subst (asm) unwrapSchema.simps) (auto split: sum.splits zod.splits)
    with size_unwrapEffects[of cur] cur_le show ?thesis by simp
  qed
qed

text \<open>\<open>typeof v === 'string'\<close> and \<open>typeof v === 'number'\<close>.\<close>

fun is_string :: "jsval \<Rightarrow> bool" where
  "is_string (JStr s) = True"
| "is_string v = False"

fun is_number :: "jsval \<Rightarrow> bool" where
  "is_number (JNum n) = True"
| "is_number v = False"

fun extractStringChecks :: "check list \<Rightarrow> jsval \<Rightarrow> jsval \<Rightarrow> error + (jsval \<times> jsval)" where
  "extractStringChecks [] minLength maxLength = Inr (minLength, maxLength)"
| "extractStringChecks (c # checks) minLength maxLength =
     (if kind c = Some ''min'' then extractStringChecks checks (check_value c) maxLength
      else if kind c = Some ''max'' then extractStringChecks checks minLength (check_value c)
      else if kind c \<noteq> None \<and> kind c \<noteq> Some [] \<and> kind c \<noteq> Some ''email''
              \<and> kind c \<noteq> Some ''url'' \<and> kind c \<noteq> Some ''uuid'' \<and> kind c \<noteq> Some ''regex''
           then Inl (Error ''Unsupported string constraint in Zod schema'')
      else extractStringChecks checks minLength maxLength)"

fun extractNumberChecks ::
  "check list \<Rightarrow> jsval \<Rightarrow> jsval \<Rightarrow> bool \<Rightarrow> error + (jsval \<times> jsval \<times> bool)" where
  "extractNumberChecks [] minimum maximum integer = Inr (minimum, maximum, integer)"
| "extractNumberChecks (c # checks) minimum maximum integer =
     (if kind c = Some ''min'' then extractNumberChecks checks (check_value c) maximum integer
      else if kind c = Some ''max'' then extractNumberChecks checks minimum (check_value c) integer
      else if kind c = Some ''int'' then extractNumberChecks checks minimum maximum True
      else if kind c \<noteq> None \<and> kind c \<noteq> Some [] \<and> kind c \<noteq> Some ''finite''
           then Inl (Error ''Unsupported number constraint in Zod schema'')
      else extractNumberChecks checks minimum maximum integer)"

text \<open>convertUnionOfLiterals: every option is unwrapped, and all of them must be literals.\<close>

fun unwrap_all :: "zod list \<Rightarrow> error + zod list" where
  "unwrap_all [] = Inr []"
| "unwrap_all (s # schemas) =
     (case unwrapSchema s of
        Inl e \<Rightarrow> Inl e
      | Inr u \<Rightarrow> (case unwrap_all schemas of Inl e \<Rightarrow> Inl e | Inr rest \<Rightarrow> Inr (u_inner u # rest)))"

fun is_literal :: "zod \<Rightarrow> bool" where
  "is_literal (ZLiteral v vs) = True"
| "is_literal s = False"

fun union_literal_value :: "zod \<Rightarrow> jsval" where
  "union_literal_value (ZLiteral v vs) =
     (if v \<noteq> JUndefined then v
      else (case vs of Some (first # others) \<Rightarrow> first | _ \<Rightarrow> JUndefined))"
| "union_literal_value s = JUndefined"

definition convertUnionOfLiterals :: "zod list \<Rightarrow> error + parser_draft" where
  "convertUnionOfLiterals schemas =
     (case unwrap_all schemas of
        Inl e \<Rightarrow> Inl e
      | Inr inners \<Rightarrow>
          (let literals = filter is_literal inners in
           if length literals \<noteq> length schemas
           then Inl (Error ''Only unions of literals are supported'')
           else
             (let vals = map union_literal_value literals in
              if list_all is_string vals then Inr (with_enum vals (draft ''string''))
              else if list_all is_number vals then Inr (with_enum vals (draft ''number''))
              else if list_all is_boolean vals then
                (case vals of
                   [v] \<Rightarrow> Inr (with_default v (draft ''boolean''))
                 | _ \<Rightarrow> Inl (Error ''Boolean literal unions with multiple values are not supported''))
              else Inl (Error ''Unsupported literal union type''))))"

text \<open>The value of a literal schema: \<open>value\<close> unless it is \<open>null\<close> or \<open>undefined\<close>,
  then the first of \<open>values\<close>.\<close>

definition literal_value :: "jsval \<Rightarrow> jsval list option \<Rightarrow> jsval" where
  "literal_value v vs =
     (if v \<noteq> JNull \<and> v \<noteq> JUndefined then v
      else (case vs of Some (first # others) \<Rightarrow> first | _ \<Rightarrow> JUndefined))"

definition convert_literal :: "jsval \<Rightarrow> jsval list option \<Rightarrow> error + parser_draft" where
  "convert_literal v vs =
     (let literal = literal_value v vs in
      if is_string literal then Inr (with_enum [literal] (draft ''string''))
      else if is_number literal then Inr (with_enum [literal] (draft ''number''))
      else if is_boolean literal then Inr (with_default literal (draft ''boolean''))
      else Inl (Error ''Unsupported literal type in Zod schema''))"

definition string_draft :: "jsval \<Rightarrow> jsval \<Rightarrow> parser_draft" where
  "string_draft minLength maxLength =
     ParserDraft ''string'' None JUndefined minLength maxLength JUndefined JUndefined False None None None
       None"

definition number_draft :: "jsval \<Rightarrow> jsval \<Rightarrow> bool \<Rightarrow> parser_draft" where
  "number_draft minimum maximum integer =
     ParserDraft ''number'' None JUndefined JUndefined JUndefined minimum maximum integer None None None
       None"

definition array_draft :: "parser_draft \<Rightarrow> parser_draft" where
  "array_draft items =
     ParserDraft ''array'' None JUndefined JUndefined JUndefined JUndefined JUndefined False (Some items)
       None None None"

definition object_draft :: "(string \<times> parser_draft) list \<Rightarrow> string list \<Rightarrow> parser_draft" where
  "object_draft properties requiredKeys =
     ParserDraft ''object'' None JUndefined JUndefined JUndefined JUndefined JUndefined False None
       (Some properties) (if requiredKeys \<noteq> [] then Some requiredKeys else None) None"

text \<open>
  \<open>properties[key] = converted\<close> on an object that \<open>{}\<close> made. The assignment adds
  the property or replaces its value, except under the name \<open>__proto__\<close>: there it calls
  the setter that the object inherits, which makes \<open>converted\<close> the prototype of the
  object and gives the object no property of its own. The list holds the properties the
  object has of its own, those that \<open>Object.keys\<close> and \<open>JSON.stringify\<close> see.
\<close>

definition obj_assign :: "string \<Rightarrow> parser_draft \<Rightarrow> (string \<times> parser_draft) list
    \<Rightarrow> (string \<times> parser_draft) list" where
  "obj_assign key converted properties =
     (if key = ''__proto__'' then properties else AList.update key converted properties)"

text \<open>
  zodToWorkflowParserJsonSchema, with the loop over the entries of an object's shape as
  \<open>convert_shape\<close>: it carries \<open>properties\<close> and \<open>requiredKeys\<close> and stops at the
  first entry that throws.
\<close>

function zodToWorkflowParserJsonSchema :: "zod \<Rightarrow> error + parser_draft"
  and convert_shape ::
    "(string \<times> zod) list \<Rightarrow> (string \<times> parser_draft) list \<Rightarrow> string list
      \<Rightarrow> error + ((string \<times> parser_draft) list \<times> string list)"
where
  "zodToWorkflowParserJsonSchema schema =
     (case unwrapSchema schema of
        Inl e \<Rightarrow> Inl e
      | Inr u \<Rightarrow>
          (case (case u_inner u of
                   ZUnknown \<Rightarrow> Inr (draft ''unknown'')
                 | ZAny \<Rightarrow> Inr (draft ''unknown'')
                 | ZString checks \<Rightarrow>
                     (case extractStringChecks checks JUndefined JUndefined of
                        Inl e \<Rightarrow> Inl e
                      | Inr (minLength, maxLength) \<Rightarrow> Inr (string_draft minLength maxLength))
                 | ZNumber checks \<Rightarrow>
                     (case extractNumberChecks checks JUndefined JUndefined False of
                        Inl e \<Rightarrow> Inl e
                      | Inr (minimum, maximum, integer) \<Rightarrow> Inr (number_draft minimum maximum integer))
                 | ZBoolean \<Rightarrow> Inr (draft ''boolean'')
                 | ZArray element \<Rightarrow>
                     (case zodToWorkflowParserJsonSchema
                             (case element of None \<Rightarrow> ZUnknown | Some child \<Rightarrow> child) of
                        Inl e \<Rightarrow> Inl e
                      | Inr items \<Rightarrow> Inr (array_draft items))
                 | ZObject shape \<Rightarrow>
                     (case convert_shape shape [] [] of
                        Inl e \<Rightarrow> Inl e
                      | Inr (properties, requiredKeys) \<Rightarrow> Inr (object_draft properties requiredKeys))
                 | ZLiteral v vs \<Rightarrow> convert_literal v vs
                 | ZEnum entries \<Rightarrow> Inr (with_enum (map JStr entries) (draft ''string''))
                 | ZUnion options \<Rightarrow> convertUnionOfLiterals options
                 | _ \<Rightarrow> Inl (Error ''Unsupported Zod schema type for workflow parser conversion'')) of
             Inl e \<Rightarrow> Inl e
           | Inr parsed \<Rightarrow>
               Inr (if u_defaultValue u \<noteq> JUndefined then with_default (u_defaultValue u) parsed
                    else parsed)))"
| "convert_shape [] properties requiredKeys = Inr (properties, requiredKeys)"
| "convert_shape ((key, val) # rest) properties requiredKeys =
     (case zodToWorkflowParserJsonSchema val of
        Inl e \<Rightarrow> Inl e
      | Inr converted \<Rightarrow>
          (case unwrapSchema val of
             Inl e \<Rightarrow> Inl e
           | Inr unwrapped \<Rightarrow>
               (let hasDefault = (pd_default converted \<noteq> JUndefined
                                  \<or> u_defaultValue unwrapped \<noteq> JUndefined)
                in convert_shape rest (obj_assign key converted properties)
                     (if u_required unwrapped \<and> \<not> hasDefault then requiredKeys @ [key]
                      else requiredKeys))))"
  by pat_completeness auto
termination
proof (relation "measure (\<lambda>a. case a of
          Inl schema \<Rightarrow> size schema
        | Inr (shape, properties, requiredKeys) \<Rightarrow> size_list (size_prod (\<lambda>k. 0) size) shape)")
  show "wf (measure (\<lambda>a. case a of
          Inl schema \<Rightarrow> size schema
        | Inr (shape, properties, requiredKeys) \<Rightarrow> size_list (size_prod (\<lambda>k. 0) size) shape))"
    by simp
qed (auto dest!: size_unwrapSchema split: option.splits)

declare zodToWorkflowParserJsonSchema.simps [simp del]

section \<open>The words of the claim about required keys\<close>

text \<open>
  The words are read on the Zod schema of the property, by the wrappers around it. A
  property is optional when an optional wrapper is met on the way in, through effects and
  default wrappers; it carries a default value when a default wrapper is met on the way in,
  through effects and optional wrappers, and \<open>declared_default\<close> is the value of the
  outermost default wrapper that gives one (\<open>JUndefined\<close> when there is none).
\<close>

fun is_optional :: "zod \<Rightarrow> bool" where
  "is_optional (ZOptional s) = True"
| "is_optional (ZEffects s) = is_optional s"
| "is_optional (ZDefault d s) = is_optional s"
| "is_optional s = False"

fun carries_default :: "zod \<Rightarrow> bool" where
  "carries_default (ZDefault d s) = True"
| "carries_default (ZEffects s) = carries_default s"
| "carries_default (ZOptional s) = carries_default s"
| "carries_default s = False"

fun declared_default :: "zod \<Rightarrow> jsval" where
  "declared_default (ZDefault d s) = (if d \<noteq> JUndefined then d else declared_default s)"
| "declared_default (ZEffects s) = declared_default s"
| "declared_default (ZOptional s) = declared_default s"
| "declared_default s = JUndefined"

text \<open>
  A boolean literal: a literal schema whose value is a boolean, under effects, or a union
  whose one option is such a literal under its wrappers. It is neither optional nor does it
  carry a default value.
\<close>

fun core :: "zod \<Rightarrow> zod" where
  "core (ZEffects s) = core s"
| "core (ZDefault d s) = core s"
| "core (ZOptional s) = core s"
| "core s = s"

fun literal_of_boolean :: "zod \<Rightarrow> bool" where
  "literal_of_boolean (ZLiteral v vs) =
     (case v of
        JBool b \<Rightarrow> True
      | JUndefined \<Rightarrow> (case vs of Some (JBool b # others) \<Rightarrow> True | _ \<Rightarrow> False)
      | JNull \<Rightarrow> (case vs of Some (JBool b # others) \<Rightarrow> True | _ \<Rightarrow> False)
      | _ \<Rightarrow> False)"
| "literal_of_boolean s = False"

fun boolean_literal :: "zod \<Rightarrow> bool" where
  "boolean_literal (ZEffects s) = boolean_literal s"
| "boolean_literal (ZLiteral v vs) = literal_of_boolean (ZLiteral v vs)"
| "boolean_literal (ZUnion options) =
     (case options of [s] \<Rightarrow> literal_of_boolean (core s) | _ \<Rightarrow> False)"
| "boolean_literal s = False"

text \<open>The wrappers that unwrapSchema takes away.\<close>

fun is_wrapper :: "zod \<Rightarrow> bool" where
  "is_wrapper (ZDefault d s) = True"
| "is_wrapper (ZOptional s) = True"
| "is_wrapper s = False"

text \<open>
  \<open>required_keys\<close> reads the \<open>required\<close> list of a parser schema, empty when it is
  missing; \<open>converted_of\<close> is the converted schema of a property that converts; the loop
  pushes a key to \<open>requiredKeys\<close> when \<open>key_required\<close> holds of its schema.
\<close>

definition wrapped_optional_or_default :: "zod \<Rightarrow> bool" where
  "wrapped_optional_or_default schema =
     (case unwrapEffects schema of ZDefault d i \<Rightarrow> True | ZOptional i \<Rightarrow> True | _ \<Rightarrow> False)"

definition required_keys :: "parser_draft \<Rightarrow> string list" where
  "required_keys parsed = (case pd_required parsed of None \<Rightarrow> [] | Some ks \<Rightarrow> ks)"

definition converted_of :: "zod \<Rightarrow> parser_draft option" where
  "converted_of schema =
     (case zodToWorkflowParserJsonSchema schema of Inl e \<Rightarrow> None | Inr converted \<Rightarrow> Some converted)"

definition key_required :: "zod \<Rightarrow> bool" where
  "key_required schema =
     (case zodToWorkflowParserJsonSchema schema of
        Inl e \<Rightarrow> False
      | Inr converted \<Rightarrow> \<not> wrapped_optional_or_default schema \<and> pd_default converted = JUndefined)"

text \<open>The schema of the test \<open>converts enums, unions, defaults, and optionals from zod\<close>.\<close>

definition test_schema :: zod where
  "test_schema = ZObject [(''status'', ZEnum [''pending'', ''done'']),
     (''choice'', ZUnion [ZLiteral (JNum 1) None, ZLiteral (JNum 2) None]),
     (''maybe'', ZOptional (ZString [])),
     (''flag'', ZLiteral (JBool True) None)]"

text \<open>A schema with a plain, an optional, a defaulted and a boolean literal property.\<close>

definition ticket_schema :: zod where
  "ticket_schema = ZObject [(''name'', ZString []), (''maybe'', ZOptional (ZString [])),
     (''priority'', ZDefault (JNum 3) (ZNumber [])),
     (''level'', ZOptional (ZDefault (JNum 1) (ZNumber []))),
     (''flag'', ZLiteral (JBool True) None)]"


section \<open>workflow-builder.ts: the round builder\<close>

text \<open>
  The fields every step may carry (\<open>CommonStepFields\<close>); a transition definition is a
  JSON value here. A schema handed to the builder is a Zod schema or a parser schema, and
  normalizeParserSchema converts the former.
\<close>

record common_step_fields =
  cf_next :: "string option"
  cf_stateUpdates :: "(string \<times> string) list option"
  cf_transitions :: "jsval list option"
  cf_exits :: "jsval list option"

datatype schema_arg = ZodSchema zod | JsonSchema parser_draft

definition normalizeParserSchema :: "schema_arg option \<Rightarrow> error + parser_draft option" where
  "normalizeParserSchema schema =
     (case schema of
        None \<Rightarrow> Inr None
      | Some (JsonSchema j) \<Rightarrow> Inr (Some j)
      | Some (ZodSchema z) \<Rightarrow>
          (case zodToWorkflowParserJsonSchema z of Inl e \<Rightarrow> Inl e | Inr j \<Rightarrow> Inr (Some j)))"

datatype step_draft =
    AgentStepDraft (sd_key: string) (sd_role: string) (sd_prompt: "string list")
      (sd_common: common_step_fields)
  | CliStepDraft (sd_key: string) (sd_command: string) (sd_args: "string list option")
      (sd_argsObject: "(string \<times> string) list option") (sd_argsSchema: "parser_draft option")
      (sd_cwd: "string option") (sd_stdinFrom: "string option") (sd_capture: "capture option")
      (sd_common: common_step_fields)
  | WorkflowReferenceStepDraft (sd_key: string) (sd_workflowId: string)
      (sd_input: "(string \<times> jsval) list option") (sd_inputSchema: "parser_draft option")
      (sd_common: common_step_fields)
  | TransformStepDraft (sd_key: string) (sd_template: jsval) (sd_transformInput: jsval)
      (sd_inputSchema: "parser_draft option") (sd_common: common_step_fields)

text \<open>The options of the methods \<open>cli\<close>, \<open>workflow\<close> and \<open>transform\<close>.\<close>

record cli_options =
  co_args :: "string list option"
  co_argsObject :: "(string \<times> string) list option"
  co_argsSchema :: "schema_arg option"
  co_cwd :: "string option"
  co_stdinFrom :: "string option"
  co_capture :: "capture option"
  co_common :: common_step_fields

record workflow_options =
  wo_input :: "(string \<times> jsval) list option"
  wo_inputSchema :: "schema_arg option"
  wo_common :: common_step_fields

record transform_options =
  to_input :: jsval
  to_inputSchema :: "schema_arg option"
  to_common :: common_step_fields

definition buildAgentStep :: "string \<Rightarrow> string \<Rightarrow> string list \<Rightarrow> common_step_fields \<Rightarrow> step_draft" where
  "buildAgentStep key role prompt options = AgentStepDraft key role prompt options"

definition buildCliStep :: "string \<Rightarrow> string \<Rightarrow> cli_options \<Rightarrow> error + step_draft" where
  "buildCliStep key command options =
     (case normalizeParserSchema (co_argsSchema options) of
        Inl e \<Rightarrow> Inl e
      | Inr argsSchema \<Rightarrow>
          Inr (CliStepDraft key command (co_args options) (co_argsObject options) argsSchema
                 (co_cwd options) (co_stdinFrom options) (co_capture options) (co_common options)))"

definition buildWorkflowReferenceStep :: "string \<Rightarrow> string \<Rightarrow> workflow_options \<Rightarrow> error + step_draft" where
  "buildWorkflowReferenceStep key workflowId options =
     (case normalizeParserSchema (wo_inputSchema options) of
        Inl e \<Rightarrow> Inl e
      | Inr inputSchema \<Rightarrow>
          Inr (WorkflowReferenceStepDraft key workflowId (wo_input options) inputSchema
                 (wo_common options)))"

definition buildTransformStep :: "string \<Rightarrow> jsval \<Rightarrow> transform_options \<Rightarrow> error + step_draft" where
  "buildTransformStep key template options =
     (case normalizeParserSchema (to_inputSchema options) of
        Inl e \<Rightarrow> Inl e
      | Inr inputSchema \<Rightarrow>
          Inr (TransformStepDraft key template (to_input options) inputSchema (to_common options)))"

text \<open>
  The draft a RoundBuilder holds, and the round its \<open>build\<close> returns. The default
  outcome is the pair of \<open>outcome\<close> and \<open>reason\<close>.
\<close>

record round_draft =
  rd_start :: "string option"
  rd_steps :: "step_draft list"
  rd_maxRounds :: "int option"
  rd_defaultOutcome :: "(string \<times> string) option"

record round_definition =
  round_start :: "string option"
  round_steps :: "step_draft list"
  round_maxRounds :: "int option"
  round_defaultOutcome :: "string \<times> string"

definition new_RoundBuilder :: round_draft where
  "new_RoundBuilder = \<lparr>rd_start = None, rd_steps = [], rd_maxRounds = None, rd_defaultOutcome = None\<rparr>"

text \<open>The methods of the builder, one call each; a method that converts a schema may throw.\<close>

datatype builder_call =
    Start string
  | MaxRounds int
  | DefaultOutcome string string
  | Agent string string "string list" common_step_fields
  | Cli string string cli_options
  | Workflow string string workflow_options
  | Transform string jsval transform_options

definition push_step :: "step_draft \<Rightarrow> round_draft \<Rightarrow> round_draft" where
  "push_step s d = d\<lparr>rd_steps := rd_steps d @ [s]\<rparr>"

fun builder_method :: "builder_call \<Rightarrow> round_draft \<Rightarrow> error + round_draft" where
  "builder_method (Start stepKey) d = Inr (d\<lparr>rd_start := Some stepKey\<rparr>)"
| "builder_method (MaxRounds count) d = Inr (d\<lparr>rd_maxRounds := Some count\<rparr>)"
| "builder_method (DefaultOutcome result reason) d =
     Inr (d\<lparr>rd_defaultOutcome := Some (result, reason)\<rparr>)"
| "builder_method (Agent key role prompt options) d =
     Inr (push_step (buildAgentStep key role prompt options) d)"
| "builder_method (Cli key command options) d =
     (case buildCliStep key command options of Inl e \<Rightarrow> Inl e | Inr s \<Rightarrow> Inr (push_step s d))"
| "builder_method (Workflow key workflowId options) d =
     (case buildWorkflowReferenceStep key workflowId options of
        Inl e \<Rightarrow> Inl e | Inr s \<Rightarrow> Inr (push_step s d))"
| "builder_method (Transform key template options) d =
     (case buildTransformStep key template options of
        Inl e \<Rightarrow> Inl e | Inr s \<Rightarrow> Inr (push_step s d))"

fun builder_methods :: "builder_call list \<Rightarrow> round_draft \<Rightarrow> error + round_draft" where
  "builder_methods [] d = Inr d"
| "builder_methods (c # calls) d =
     (case builder_method c d of Inl e \<Rightarrow> Inl e | Inr d' \<Rightarrow> builder_methods calls d')"

definition build :: "round_draft \<Rightarrow> error + round_definition" where
  "build d =
     (case rd_defaultOutcome d of
        None \<Rightarrow> Inl (Error ''defaultOutcome is required for workflow rounds'')
      | Some defaultOutcome \<Rightarrow>
          if length (rd_steps d) = 0
          then Inl (Error ''At least one step is required in a workflow round'')
          else Inr \<lparr>round_start = rd_start d, round_steps = rd_steps d,
                    round_maxRounds = rd_maxRounds d, round_defaultOutcome = defaultOutcome\<rparr>)"

text \<open>
  \<open>WorkflowBuilder.round\<close>: a fresh RoundBuilder, the caller's chain of method calls,
  then \<open>build\<close>.
\<close>

definition round_of :: "builder_call list \<Rightarrow> error + round_definition" where
  "round_of calls =
     (case builder_methods calls new_RoundBuilder of Inl e \<Rightarrow> Inl e | Inr d \<Rightarrow> build d)"

text \<open>The key of the step a call adds, for the calls that add one.\<close>

fun added_key :: "builder_call \<Rightarrow> string option" where
  "added_key (Agent key role prompt options) = Some key"
| "added_key (Cli key command options) = Some key"
| "added_key (Workflow key workflowId options) = Some key"
| "added_key (Transform key template options) = Some key"
| "added_key c = None"

definition no_fields :: common_step_fields where
  "no_fields = \<lparr>cf_next = None, cf_stateUpdates = None, cf_transitions = None, cf_exits = None\<rparr>"

text \<open>The chain of the test \<open>supports bootstrap + multi-step rounds with zod schemas\<close>.\<close>

definition mixed_round_calls :: "builder_call list" where
  "mixed_round_calls =
     [Start ''agent'',
      Agent ''agent'' ''director'' [''Hello {{state.seed}}'']
        (no_fields\<lparr>cf_stateUpdates := Some [(''echoed'', ''{{parsed}}'')], cf_next := Some ''mirror''\<rparr>),
      Transform ''mirror'' (JObj [(''echoed'', JStr ''$.steps.agent.raw'')])
        \<lparr>to_input = JUndefined, to_inputSchema = None, to_common = no_fields\<rparr>,
      Cli ''write'' ''printf''
        \<lparr>co_args = Some [''{{steps.mirror.raw}}''], co_argsObject = None, co_argsSchema = None,
         co_cwd = None, co_stdinFrom = None, co_capture = Some CaptureText, co_common = no_fields\<rparr>,
      Workflow ''delegate'' ''child-workflow.v1''
        \<lparr>wo_input = Some [(''value'', JStr ''{{steps.write.parsed.stdout}}'')],
         wo_inputSchema = Some (ZodSchema (ZObject [(''value'', ZString [])])),
         wo_common = no_fields\<rparr>,
      DefaultOutcome ''done'' ''Completed mixed workflow'',
      MaxRounds 2]"


section \<open>The validator and the run harness\<close>

text \<open>
  Modelled from the spec: the modules workflow-schema (the validators compiled from parser
  schemas) and agent-orchestrator (the run harness, \<open>runAgentWorkflow\<close>) are not among
  the sources at hand; only their tests and the README are. The definitions of this section
  follow the specification's sections on the data model, the parser schema and validator,
  the run harness and the error taxonomy.
\<close>

text \<open>
  Modelled from the spec: the structured error of a validator (workflow-schema is missing),
  the path of the offending value and a message, and the details it prints as.
\<close>

datatype validation_error = ValidationError (ve_path: "string list") (ve_message: string)

definition error_details :: "validation_error \<Rightarrow> string" where
  "error_details e =
     (if ve_path e = [] then ve_message e else join ''.'' (ve_path e) @ '': '' @ ve_message e)"

definition at_key :: "string \<Rightarrow> validation_error \<Rightarrow> validation_error" where
  "at_key k e = ValidationError (k # ve_path e) (ve_message e)"

text \<open>
  Modelled from the spec: the checks a validator (workflow-schema is missing) applies to a
  value of the right type: \<open>enum\<close> restricts the accepted values, and the bounds of strings
  and numbers hold. Numbers are integral in this model, so \<open>integer: true\<close> asks nothing
  more.
\<close>

definition enum_ok :: "parser_draft \<Rightarrow> jsval \<Rightarrow> bool" where
  "enum_ok schema v = (case pd_enum schema of None \<Rightarrow> True | Some vs \<Rightarrow> v \<in> set vs)"

definition at_least :: "jsval \<Rightarrow> int \<Rightarrow> bool" where
  "at_least bound n = (case bound of JNum b \<Rightarrow> b \<le> n | _ \<Rightarrow> True)"

definition at_most :: "jsval \<Rightarrow> int \<Rightarrow> bool" where
  "at_most bound n = (case bound of JNum b \<Rightarrow> n \<le> b | _ \<Rightarrow> True)"

definition checked :: "parser_draft \<Rightarrow> jsval \<Rightarrow> bool \<Rightarrow> validation_error + jsval" where
  "checked schema v in_bounds =
     (if \<not> enum_ok schema v then Inl (ValidationError [] ''value not in enum'')
      else if \<not> in_bounds then Inl (ValidationError [] ''value out of bounds'')
      else Inr v)"

definition obj_lookup :: "(string \<times> jsval) list \<Rightarrow> string \<Rightarrow> jsval" where
  "obj_lookup kvs k = (case map_of kvs k of None \<Rightarrow> JUndefined | Some v \<Rightarrow> v)"

text \<open>
  Modelled from the spec: the validator compiled from a parser schema (workflow-schema is
  missing). An absent value adopts the default of its schema, deeply for objects; the
  \<open>unknown\<close> variant accepts any value as it is; the other variants accept values of
  their type, checked against \<open>enum\<close> and bounds; an object requires every key of
  \<open>required\<close> after defaults are applied and keeps unknown properties unless
  \<open>additionalProperties\<close> is false.
\<close>

function (sequential) validate :: "parser_draft \<Rightarrow> jsval \<Rightarrow> validation_error + jsval"
  and validate_items :: "parser_draft \<Rightarrow> jsval list \<Rightarrow> validation_error + jsval list"
  and validate_properties ::
    "(string \<times> parser_draft) list \<Rightarrow> (string \<times> jsval) list \<Rightarrow> validation_error + (string \<times> jsval) list"
where
  "validate (ParserDraft t enum dflt minLength maxLength minimum maximum integer items properties
      required additionalProperties) candidate =
     (let schema = ParserDraft t enum dflt minLength maxLength minimum maximum integer items
                     properties required additionalProperties
      in
      if candidate = JUndefined \<and> dflt \<noteq> JUndefined then Inr dflt
      else if t = ''unknown'' then Inr candidate
      else if t = ''string'' then
        (case candidate of
           JStr s \<Rightarrow> checked schema candidate
                       (at_least minLength (int (length s)) \<and> at_most maxLength (int (length s)))
         | _ \<Rightarrow> Inl (ValidationError [] ''expected string''))
      else if t = ''number'' then
        (case candidate of
           JNum n \<Rightarrow> checked schema candidate (at_least minimum n \<and> at_most maximum n)
         | _ \<Rightarrow> Inl (ValidationError [] ''expected number''))
      else if t = ''boolean'' then
        (case candidate of
           JBool b \<Rightarrow> checked schema candidate True
         | _ \<Rightarrow> Inl (ValidationError [] ''expected boolean''))
      else if t = ''array'' then
        (case candidate of
           JArr xs \<Rightarrow>
             (case items of
                None \<Rightarrow> Inr candidate
              | Some item_schema \<Rightarrow>
                  (case validate_items item_schema xs of Inl e \<Rightarrow> Inl e | Inr ys \<Rightarrow> Inr (JArr ys)))
         | _ \<Rightarrow> Inl (ValidationError [] ''expected array''))
      else if t = ''object'' then
        (case candidate of
           JObj kvs \<Rightarrow>
             (let props = (case properties of None \<Rightarrow> [] | Some ps \<Rightarrow> ps) in
              case validate_properties props kvs of
                Inl e \<Rightarrow> Inl e
              | Inr validated \<Rightarrow>
                  (let extras = (if additionalProperties = Some False then []
                                 else filter (\<lambda>kv. fst kv \<notin> fst ` set props) kvs);
                       result = validated @ extras
                   in case filter (\<lambda>k. k \<notin> fst ` set result)
                             (case required of None \<Rightarrow> [] | Some ks \<Rightarrow> ks) of
                        [] \<Rightarrow> Inr (JObj result)
                      | k # ks \<Rightarrow> Inl (ValidationError [k] ''required'')))
         | _ \<Rightarrow> Inl (ValidationError [] ''expected object''))
      else Inl (ValidationError [] ''unknown schema type''))"
| "validate_items item_schema [] = Inr []"
| "validate_items item_schema (x # xs) =
     (case validate item_schema x of
        Inl e \<Rightarrow> Inl e
      | Inr y \<Rightarrow> (case validate_items item_schema xs of Inl e \<Rightarrow> Inl e | Inr ys \<Rightarrow> Inr (y # ys)))"
| "validate_properties [] kvs = Inr []"
| "validate_properties ((k, property_schema) # rest) kvs =
     (if obj_lookup kvs k = JUndefined \<and> pd_default property_schema = JUndefined
      then validate_properties rest kvs
      else
        (case validate property_schema (obj_lookup kvs k) of
           Inl e \<Rightarrow> Inl (at_key k e)
         | Inr v \<Rightarrow>
             (case validate_properties rest kvs of Inl e \<Rightarrow> Inl e | Inr vs \<Rightarrow> Inr ((k, v) # vs))))"
  by pat_completeness auto
termination
  by (relation "measures
        [case_sum (\<lambda>a. size (fst a))
           (case_sum (\<lambda>a. size (fst a)) (\<lambda>a. size_list (size_prod (\<lambda>k. 0) size) (fst a))),
         case_sum (\<lambda>a. 0) (case_sum (\<lambda>a. Suc (length (snd a))) (\<lambda>a. 0))]")
     (auto split: option.splits)

declare validate.simps [simp del]

text \<open>
  Modelled from the spec: the part of a workflow document the harness validates inputs
  against (workflow-schema is missing): its \<open>id\<close> and its optional \<open>user\<close> map from
  input keys to parser schemas. The inputs are validated as an object whose properties are
  the entries of the map; a key without a default is required.
\<close>

record workflow_document =
  doc_id :: string
  doc_user :: "(string \<times> parser_draft) list option"

definition user_schema :: "(string \<times> parser_draft) list \<Rightarrow> parser_draft" where
  "user_schema entries =
     object_draft entries (map fst (filter (\<lambda>kv. pd_default (snd kv) = JUndefined) entries))"

definition validate_user :: "workflow_document \<Rightarrow> jsval \<Rightarrow> validation_error + jsval" where
  "validate_user document inputs =
     (case doc_user document of
        None \<Rightarrow> Inr inputs
      | Some entries \<Rightarrow> validate (user_schema entries) inputs)"

text \<open>
  Modelled from the spec: the run harness (agent-orchestrator is missing). It validates the
  user inputs first; a failure rejects the result future with the InputValidationError and
  reaches the provenance log as a terminal record with the error class. Only then does it
  start the flow engine, here the parameter \<open>engine\<close>: from the validated inputs and the
  world of its collaborators (files, sessions, processes) to the outcome of the run and the
  world its steps leave behind.
\<close>

datatype run_error = InputValidationError string | FatalError string string

datatype 'r future = ResolvedWith 'r | RejectedWith run_error

definition error_class :: "run_error \<Rightarrow> string" where
  "error_class e = (case e of InputValidationError m \<Rightarrow> ''InputValidationError'' | FatalError c m \<Rightarrow> c)"

record ('r, 'w) run_handle =
  handle_result :: "'r future"
  handle_terminal :: "string option"
  handle_world :: 'w

definition runWorkflow ::
  "(workflow_document \<Rightarrow> jsval \<Rightarrow> 'w \<Rightarrow> (run_error + 'r) \<times> 'w) \<Rightarrow> workflow_document \<Rightarrow> jsval \<Rightarrow> 'w
    \<Rightarrow> ('r, 'w) run_handle" where
  "runWorkflow engine document inputs world =
     (case validate_user document inputs of
        Inl e \<Rightarrow>
          \<lparr>handle_result = RejectedWith (InputValidationError
              (''Invalid user inputs for workflow '' @ doc_id document @ '': '' @ error_details e)),
           handle_terminal = Some ''InputValidationError'',
           handle_world = world\<rparr>
      | Inr validated \<Rightarrow>
          (case engine document validated world of
             (Inl err, world') \<Rightarrow>
               \<lparr>handle_result = RejectedWith err, handle_terminal = Some (error_class err),
                handle_world = world'\<rparr>
           | (Inr r, world') \<Rightarrow>
               \<lparr>handle_result = ResolvedWith r, handle_terminal = None, handle_world = world'\<rparr>))"

text \<open>
  The parent workflow of the reference test, and an engine whose one step writes the file
  named by \<open>goalFile\<close>; the world is the list of files written.
\<close>

definition reference_document :: workflow_document where
  "reference_document = \<lparr>doc_id = ''workflow-reference.v1'',
     doc_user = Some [(''goalFile'', with_default (JStr ''nested-output.txt'') (draft ''string'')),
                      (''goalContent'', with_default (JStr ''Nested workflow content'') (draft ''string''))]\<rparr>"

definition writing_engine :: "workflow_document \<Rightarrow> jsval \<Rightarrow> string list \<Rightarrow> (run_error + string) \<times> string list" where
  "writing_engine document inputs world =
     (Inr ''child-completed'',
      world @ [String_js (case inputs of JObj kvs \<Rightarrow> obj_lookup kvs ''goalFile'' | _ \<Rightarrow> JUndefined)])"


section \<open>Properties of extractResponseText\<close>

lemma filter_text_append_others:
  "list_all (\<lambda>q. \<not> is_text_part q) qs \<Longrightarrow> filter is_text_part (ps @ qs) = filter is_text_part ps"
  by (induction qs) (simp_all add: list_all_iff)

text \<open>
  C7, as stated, fails: the response holds a text part with the non-empty text
  \<open>hello\<close>, the last such part, and a later text part whose text is empty. The function
  looks at the last text part only and answers with its error document.
\<close>

theorem C7_last_nonempty_text_counterexample:
  "part_text (last (filter nonempty_text_part
      [\<lparr>part_type = ''text'', part_text = Some ''hello''\<rparr>,
       \<lparr>part_type = ''text'', part_text = Some ''''\<rparr>])) = Some ''hello''
   \<and> extractResponseText (Some
      [\<lparr>part_type = ''text'', part_text = Some ''hello''\<rparr>,
       \<lparr>part_type = ''text'', part_text = Some ''''\<rparr>]) = no_text_parts_error
   \<and> no_text_parts_error \<noteq> ''hello''"
  by (simp add: extractResponseText_def at_last_def is_text_part_def nonempty_text_part_def
      no_text_parts_error_def)

text \<open>
  C7, amended: when the last part of type \<open>text\<close> of the response has a non-empty
  text, extractResponseText returns that text, and parts that follow and are not text parts
  do not change the result.
\<close>

theorem C7_last_text_part:
  assumes "filter is_text_part ps \<noteq> []"
    and "part_text (last (filter is_text_part ps)) = Some t"
    and "t \<noteq> []"
    and "list_all (\<lambda>q. \<not> is_text_part q) qs"
  shows "extractResponseText (Some ps) = t \<and> extractResponseText (Some (ps @ qs)) = t"
proof -
  from assms(1) have ne: "ps \<noteq> []" by auto
  have one: "extractResponseText (Some ps) = t"
    using assms(1-3) ne by (simp add: extractResponseText_def at_last_def)
  have "filter is_text_part (ps @ qs) = filter is_text_part ps"
    using assms(4) by (rule filter_text_append_others)
  then have "extractResponseText (Some (ps @ qs)) = t"
    using assms(1-3) ne by (simp add: extractResponseText_def at_last_def)
  with one show ?thesis by simp
qed

theorem C7_last_text_part_witness:
  "extractResponseText (Some
      [\<lparr>part_type = ''text'', part_text = Some ''draft''\<rparr>,
       \<lparr>part_type = ''reasoning'', part_text = Some ''hm''\<rparr>,
       \<lparr>part_type = ''text'', part_text = Some ''final''\<rparr>]) = ''final''
   \<and> extractResponseText (Some
      ([\<lparr>part_type = ''text'', part_text = Some ''draft''\<rparr>,
        \<lparr>part_type = ''reasoning'', part_text = Some ''hm''\<rparr>,
        \<lparr>part_type = ''text'', part_text = Some ''final''\<rparr>]
       @ [\<lparr>part_type = ''step-finish'', part_text = None\<rparr>])) = ''final''"
  using C7_last_text_part
    [of "[\<lparr>part_type = ''text'', part_text = Some ''draft''\<rparr>,
          \<lparr>part_type = ''reasoning'', part_text = Some ''hm''\<rparr>,
          \<lparr>part_type = ''text'', part_text = Some ''final''\<rparr>]"
        "''final''"
        "[\<lparr>part_type = ''step-finish'', part_text = None\<rparr>]"]
  by (simp add: is_text_part_def)

section \<open>Properties of the agent definition writers\<close>


lemma tool_permission_truthy: "tool_permission tools k = (if given_truthy tools k then Allow else Deny)"
  by (auto simp: tool_permission_def given_truthy_def tools_get_def split: option.splits)


lemma fold_permission:
  "ac_permission (fold (config_tool_step tools) ks a) =
     (\<lambda>k. if k \<in> set ks \<and> k \<in> set PERMISSION_KEYS
          then Some (if given_truthy tools k then Allow else Deny) else ac_permission a k)"
  by (induction ks arbitrary: a)
     (auto simp: config_tool_step_def Let_def tool_permission_truthy fun_eq_iff PERMISSION_KEYS_def)

lemma close_fields:
  "opencodeServer (closeOpencodeServer s) = None"
  "opencodeClients (closeOpencodeServer s) = Map.empty"
  "closed (closeOpencodeServer s) = closed s @ (case opencodeServer s of None \<Rightarrow> [] | Some srv \<Rightarrow> [url srv])"
  "files (closeOpencodeServer s) = files s"
  "denied (closeOpencodeServer s) = denied s"
  by (simp_all add: closeOpencodeServer_def resetOpencodeClients_def server_close_def split: option.splits)

lemmas eval_defs = createAgentViaMarkdown_def createAgentViaConfig_def Let_def fresh_state_def
  agent_file_path_def path_join_def agent_filename_def is_safe_char_def to_lower_def file_exists_def
  closeOpencodeServer_def resetOpencodeClients_def server_close_def frontmatterLines_def
  tool_line_def permission_line_def tool_value_def tool_permission_def tools_get_def
  permission_name_def model_id_def TOOL_KEYS_def PERMISSION_KEYS_def granted_def given_truthy_def
  boolean_or_absent_def config_has_agent_def default_config_def new_agent_config_def
  config_tool_step_def getOpencodeClient_def getOpencodeServer_def Object_prototype_names_def

lemma cached_state_eq: "cached_state = \<lparr>opencodeServer = Some \<lparr>url = ''http://127.0.0.1:4096''\<rparr>,
    opencodeClients = [''/w'' \<mapsto> \<lparr>baseUrl = ''http://127.0.0.1:4096'', client_directory = ''/w''\<rparr>],
    closed = [], files = Map.empty, denied = {}\<rparr>"
  by (simp add: cached_state_def eval_defs)





text \<open>
  C8: when createAgentViaMarkdown or createAgentViaConfig returns after writing a definition
  that did not exist, the singleton server has been closed and cleared and no client is
  cached; when the definition exists already, the state (files and cache) is unchanged.
  createAgentViaConfig changes the state in no other way: either it leaves the state as it
  was, or it has written the definition and cleared the cache; and it writes whenever the
  configuration holds no definition under the name and the name is none of those that every
  object inherits.
\<close>

theorem C8_cache_invalidation:
  "(createAgentViaMarkdown st directory name model instructions tools = (Inr p, st') \<longrightarrow>
      (if file_exists st p then st' = st
       else files st' p \<noteq> None
          \<and> opencodeServer st' = None \<and> opencodeClients st' = Map.empty
          \<and> closed st' = closed st @ (case opencodeServer st of None \<Rightarrow> [] | Some srv \<Rightarrow> [url srv])))
   \<and> (createAgentViaConfig st directory name model instructions tools = (Inr cp, cst') \<longrightarrow>
      (config_has_agent st directory name \<longrightarrow> cst' = st)
      \<and> (cst' \<noteq> st \<longrightarrow>
           \<not> config_has_agent st directory name
           \<and> (\<exists>c m. files cst' cp = Some (Json c) \<and> cfg_agent c = Some m \<and> m name \<noteq> None)
           \<and> opencodeServer cst' = None \<and> opencodeClients cst' = Map.empty
           \<and> closed cst' = closed st @ (case opencodeServer st of None \<Rightarrow> [] | Some srv \<Rightarrow> [url srv]))
      \<and> (\<not> config_has_agent st directory name \<and> name \<notin> set Object_prototype_names \<longrightarrow>
           files cst' cp \<noteq> files st cp
           \<and> (\<exists>c m. files cst' cp = Some (Json c) \<and> cfg_agent c = Some m \<and> m name \<noteq> None)
           \<and> opencodeServer cst' = None \<and> opencodeClients cst' = Map.empty
           \<and> closed cst' = closed st @ (case opencodeServer st of None \<Rightarrow> [] | Some srv \<Rightarrow> [url srv])))"
proof (intro conjI impI)
  assume "createAgentViaMarkdown st directory name model instructions tools = (Inr p, st')"
  then show "if file_exists st p then st' = st
       else files st' p \<noteq> None
          \<and> opencodeServer st' = None \<and> opencodeClients st' = Map.empty
          \<and> closed st' = closed st @ (case opencodeServer st of None \<Rightarrow> [] | Some srv \<Rightarrow> [url srv])"
    by (auto simp: createAgentViaMarkdown_def Let_def close_fields split: if_splits)
next
  assume "createAgentViaConfig st directory name model instructions tools = (Inr cp, cst')"
    and "config_has_agent st directory name"
  then show "cst' = st"
    by (auto simp: createAgentViaConfig_def config_has_agent_def Let_def
        split: if_splits option.splits file_content.splits)
next
  assume a: "createAgentViaConfig st directory name model instructions tools = (Inr cp, cst')"
    and n: "cst' \<noteq> st"
  from a n show "\<not> config_has_agent st directory name"
    by (auto simp: createAgentViaConfig_def config_has_agent_def Let_def
        split: if_splits option.splits file_content.splits)
  from a n show "\<exists>c m. files cst' cp = Some (Json c) \<and> cfg_agent c = Some m \<and> m name \<noteq> None"
    by (auto simp: createAgentViaConfig_def Let_def close_fields default_config_def
        split: if_splits option.splits file_content.splits)
  from a n show "opencodeServer cst' = None"
    by (auto simp: createAgentViaConfig_def Let_def close_fields
        split: if_splits option.splits file_content.splits)
  from a n show "opencodeClients cst' = Map.empty"
    by (auto simp: createAgentViaConfig_def Let_def close_fields
        split: if_splits option.splits file_content.splits)
  from a n show "closed cst' = closed st @ (case opencodeServer st of None \<Rightarrow> [] | Some srv \<Rightarrow> [url srv])"
    by (auto simp: createAgentViaConfig_def Let_def close_fields
        split: if_splits option.splits file_content.splits)
next
  assume a: "createAgentViaConfig st directory name model instructions tools = (Inr cp, cst')"
    and n: "\<not> config_has_agent st directory name \<and> name \<notin> set Object_prototype_names"
  from a n have cp: "cp = path_join [directory, ''opencode.json'']"
    by (auto simp: createAgentViaConfig_def Let_def split: if_splits sum.splits)
  from a n have "\<exists>c m. cst' = closeOpencodeServer (st\<lparr>files := (files st)(cp \<mapsto> Json c)\<rparr>)
      \<and> cfg_agent c = Some m \<and> m name \<noteq> None"
    by (auto simp: createAgentViaConfig_def config_has_agent_def Let_def default_config_def
        split: if_splits option.splits file_content.splits)
  then obtain c m where
    w: "cst' = closeOpencodeServer (st\<lparr>files := (files st)(cp \<mapsto> Json c)\<rparr>)"
    and cm: "cfg_agent c = Some m" "m name \<noteq> None"
    by blast
  show ex: "\<exists>c m. files cst' cp = Some (Json c) \<and> cfg_agent c = Some m \<and> m name \<noteq> None"
    unfolding w using cm by (simp add: close_fields)
  with n show "files cst' cp \<noteq> files st cp"
    unfolding cp by (auto simp: config_has_agent_def)
  show "opencodeServer cst' = None"
    unfolding w by (simp add: close_fields)
  show "opencodeClients cst' = Map.empty"
    unfolding w by (simp add: close_fields)
  show "closed cst' = closed st @ (case opencodeServer st of None \<Rightarrow> [] | Some srv \<Rightarrow> [url srv])"
    unfolding w by (simp add: close_fields)
qed

theorem C8_cache_invalidation_witness:
  "opencodeServer cached_state = Some \<lparr>url = ''http://127.0.0.1:4096''\<rparr>
   \<and> opencodeClients cached_state ''/w'' = Some \<lparr>baseUrl = ''http://127.0.0.1:4096'', client_directory = ''/w''\<rparr>
   \<and> createAgentViaMarkdown cached_state ''/w'' ''helper'' ''p/m'' ''hi'' None = (Inr ''/w/.opencode/agent/helper.md'', after_markdown)
   \<and> \<not> file_exists cached_state ''/w/.opencode/agent/helper.md''
   \<and> files after_markdown ''/w/.opencode/agent/helper.md'' \<noteq> None
   \<and> opencodeServer after_markdown = None \<and> opencodeClients after_markdown = Map.empty
   \<and> closed after_markdown = [''http://127.0.0.1:4096'']
   \<and> file_exists after_markdown ''/w/.opencode/agent/helper.md''
   \<and> createAgentViaMarkdown after_markdown ''/w'' ''helper'' ''p/m'' ''hi'' None = (Inr ''/w/.opencode/agent/helper.md'', after_markdown)
   \<and> createAgentViaConfig cached_state ''/w'' ''helper'' ''p/m'' ''hi'' None = (Inr ''/w/opencode.json'', after_config)
   \<and> \<not> config_has_agent cached_state ''/w'' ''helper''
   \<and> ''helper'' \<notin> set Object_prototype_names
   \<and> after_config \<noteq> cached_state
   \<and> files after_config ''/w/opencode.json'' \<noteq> files cached_state ''/w/opencode.json''
   \<and> opencodeServer after_config = None \<and> opencodeClients after_config = Map.empty
   \<and> closed after_config = [''http://127.0.0.1:4096'']
   \<and> config_has_agent after_config ''/w'' ''helper''
   \<and> createAgentViaConfig after_config ''/w'' ''helper'' ''p/m'' ''hi'' None = (Inr ''/w/opencode.json'', after_config)"
proof -
  have md: "createAgentViaMarkdown cached_state ''/w'' ''helper'' ''p/m'' ''hi'' None = (Inr ''/w/.opencode/agent/helper.md'', after_markdown)"
    by (simp add: after_markdown_def cached_state_eq eval_defs)
  have cf: "createAgentViaConfig cached_state ''/w'' ''helper'' ''p/m'' ''hi'' None = (Inr ''/w/opencode.json'', after_config)"
    by (simp add: after_config_def cached_state_eq eval_defs)
  have e1: "\<not> file_exists cached_state ''/w/.opencode/agent/helper.md''" "\<not> config_has_agent cached_state ''/w'' ''helper''"
    "''helper'' \<notin> set Object_prototype_names"
    by (simp_all add: cached_state_eq eval_defs)
  have e2: "file_exists after_markdown ''/w/.opencode/agent/helper.md''"
    by (simp add: after_markdown_def cached_state_eq eval_defs)
  have e3: "config_has_agent after_config ''/w'' ''helper''"
    by (simp add: after_config_def cached_state_eq eval_defs)
  have d: "denied after_markdown = {}" "denied after_config = {}"
    by (simp_all add: after_markdown_def after_config_def cached_state_eq eval_defs)
  have md2: "createAgentViaMarkdown after_markdown ''/w'' ''helper'' ''p/m'' ''hi'' None = (Inr ''/w/.opencode/agent/helper.md'', after_markdown)"
    using e2 d by (simp add: createAgentViaMarkdown_def Let_def agent_file_path_def path_join_def agent_filename_def
        is_safe_char_def to_lower_def file_exists_def)
  have cf2: "createAgentViaConfig after_config ''/w'' ''helper'' ''p/m'' ''hi'' None = (Inr ''/w/opencode.json'', after_config)"
    using e3 d by (auto simp add: createAgentViaConfig_def Let_def path_join_def config_has_agent_def
        split: option.splits file_content.splits)
  have ne: "after_config \<noteq> cached_state"
    using e1(2) e3 by auto
  have cl: "closed cached_state = []" "opencodeServer cached_state = Some \<lparr>url = ''http://127.0.0.1:4096''\<rparr>"
    "opencodeClients cached_state ''/w'' = Some \<lparr>baseUrl = ''http://127.0.0.1:4096'', client_directory = ''/w''\<rparr>"
    by (simp_all add: cached_state_eq)
  note a = C8_cache_invalidation[where st = cached_state and directory = "''/w''" and name = "''helper''"
      and model = "''p/m''" and instructions = "''hi''" and tools = None
      and p = "''/w/.opencode/agent/helper.md''" and st' = after_markdown
      and cp = "''/w/opencode.json''" and cst' = after_config]
  from a md e1 cl have A: "files after_markdown ''/w/.opencode/agent/helper.md'' \<noteq> None
      \<and> opencodeServer after_markdown = None \<and> opencodeClients after_markdown = Map.empty
      \<and> closed after_markdown = [''http://127.0.0.1:4096'']"
    by simp
  from a cf e1 cl have B: "files after_config ''/w/opencode.json'' \<noteq> files cached_state ''/w/opencode.json''
      \<and> opencodeServer after_config = None \<and> opencodeClients after_config = Map.empty
      \<and> closed after_config = [''http://127.0.0.1:4096'']"
    by simp
  show ?thesis
    using A B md cf e1 e2 e3 md2 cf2 ne cl by simp
qed


section \<open>Properties of defaultRunCliArgs\<close>

lemma deliver_data:
  "is_data e \<Longrightarrow> promise (deliver codec cb ct e st) = promise st"
  "is_data e \<Longrightarrow> uncaught (deliver codec cb ct e st) = uncaught st"
  by (cases e; simp add: deliver_def Let_def)+

lemma promise_data:
  "list_all is_data pre \<Longrightarrow> promise (fold (deliver codec cb ct) pre st) = promise st"
  by (induction pre arbitrary: st) (simp_all add: deliver_data)

lemma uncaught_data:
  "list_all is_data pre \<Longrightarrow> uncaught (fold (deliver codec cb ct) pre st) = uncaught st"
  by (induction pre arbitrary: st) (simp_all add: deliver_data)

lemma stdout_chunks_data:
  "list_all is_data pre \<Longrightarrow> uncaught st = None \<Longrightarrow>
   concat (stdoutChunks (fold (deliver codec True ct) pre st)) =
     concat (stdoutChunks st) @ stdout_bytes codec pre"
proof (induction pre arbitrary: st)
  case Nil then show ?case by simp
next
  case (Cons e pre)
  have u: "uncaught (deliver codec True ct e st) = None"
    using Cons.prems by (simp add: deliver_data)
  have "concat (stdoutChunks (deliver codec True ct e st)) @ stdout_bytes codec pre =
      concat (stdoutChunks st) @ stdout_bytes codec (e # pre)"
    using Cons.prems by (cases e) (simp_all add: deliver_def Let_def)
  with Cons.IH[OF _ u] Cons.prems(1) show ?case by simp
qed

lemma stderr_chunks_data:
  "list_all is_data pre \<Longrightarrow> uncaught st = None \<Longrightarrow>
   concat (stderrChunks (fold (deliver codec True ct) pre st)) =
     concat (stderrChunks st) @ stderr_bytes codec pre"
proof (induction pre arbitrary: st)
  case Nil then show ?case by simp
next
  case (Cons e pre)
  have u: "uncaught (deliver codec True ct e st) = None"
    using Cons.prems by (simp add: deliver_data)
  have "concat (stderrChunks (deliver codec True ct e st)) @ stderr_bytes codec pre =
      concat (stderrChunks st) @ stderr_bytes codec (e # pre)"
    using Cons.prems by (cases e) (simp_all add: deliver_def Let_def)
  with Cons.IH[OF _ u] Cons.prems(1) show ?case by simp
qed

lemma promise_settled:
  "promise st = Some s \<Longrightarrow> promise (fold (deliver codec cb ct) post st) = Some s"
proof (induction post arbitrary: st)
  case Nil then show ?case by simp
next
  case (Cons e post)
  have "promise (deliver codec cb ct e st) = Some s"
    using Cons.prems
    by (cases e) (auto simp: deliver_def Let_def settle_def on_close_def split: option.splits)
  then show ?case using Cons.IH by simp
qed

lemma promise_on_close:
  "promise st = None \<Longrightarrow>
   promise (on_close codec cb ct code st) =
     Some (Resolved \<lparr>
       r_stdout = (if cb \<and> \<not> ct then decode codec (concat (stdoutChunks st)) else stdout st),
       r_stderr = (if cb \<and> \<not> ct then decode codec (concat (stderrChunks st)) else stderr st),
       r_stdoutBuffer = (if cb then Some (concat (stdoutChunks st)) else None),
       r_stderrBuffer = (if cb then Some (concat (stderrChunks st)) else None),
       r_exitCode = (case code of None \<Rightarrow> - 1 | Some c \<Rightarrow> c)\<rparr>)"
  by (simp add: on_close_def settle_def Let_def)

lemma rejected_only_by_error:
  "promise (fold (deliver codec cb ct) evs st) = Some (Rejected err) \<Longrightarrow>
   promise st = Some (Rejected err) \<or> ErrorEvent err \<in> set evs"
proof (induction evs arbitrary: st)
  case Nil then show ?case by simp
next
  case (Cons e evs)
  from Cons.IH[OF Cons.prems[simplified]]
  have "promise (deliver codec cb ct e st) = Some (Rejected err) \<or> ErrorEvent err \<in> set evs" .
  then show ?case
  proof
    assume "promise (deliver codec cb ct e st) = Some (Rejected err)"
    then show ?thesis
      by (cases e)
         (auto simp: deliver_def Let_def settle_def on_close_def split: option.splits if_splits)
  next
    assume "ErrorEvent err \<in> set evs" then show ?thesis by simp
  qed
qed

lemma uncaught_stays:
  "uncaught st = Some x \<Longrightarrow> fold (deliver codec cb ct) post st = st"
  by (induction post) (simp_all add: deliver_def)

text \<open>
  What the runner does right: as long as the stdin stream raises no error, a close event
  that comes before any error event resolves the promise with the close code as
  \<open>exitCode\<close>, \<open>-1\<close> for \<open>null\<close>, whatever the code is; an error event of the child
  that comes first rejects it; and a rejection always comes from an error event of the child.
\<close>

lemma close_resolves_error_rejects:
  "(list_all is_data pre \<and> events child = pre @ CloseEvent code # post \<longrightarrow>
      (\<exists>r. outcome (defaultRunCliArgs codec input child) = Some (Resolved r)
         \<and> r_exitCode r = (case code of None \<Rightarrow> - 1 | Some c \<Rightarrow> c)))
   \<and> (list_all is_data pre \<and> events child = pre @ ErrorEvent err # post \<longrightarrow>
        outcome (defaultRunCliArgs codec input child) = Some (Rejected err))
   \<and> (outcome (defaultRunCliArgs codec input child) = Some (Rejected err) \<longrightarrow>
        ErrorEvent err \<in> set (events child))"
proof (intro conjI impI)
  assume a: "list_all is_data pre \<and> events child = pre @ CloseEvent code # post"
  then show "\<exists>r. outcome (defaultRunCliArgs codec input child) = Some (Resolved r)
         \<and> r_exitCode r = (case code of None \<Rightarrow> - 1 | Some c \<Rightarrow> c)"
    by (simp add: defaultRunCliArgs_def Let_def deliver_def uncaught_data promise_settled
        promise_on_close promise_data initial_run_def)
next
  assume a: "list_all is_data pre \<and> events child = pre @ ErrorEvent err # post"
  then show "outcome (defaultRunCliArgs codec input child) = Some (Rejected err)"
    by (simp add: defaultRunCliArgs_def Let_def deliver_def uncaught_data promise_settled
        promise_data settle_def initial_run_def)
next
  assume "outcome (defaultRunCliArgs codec input child) = Some (Rejected err)"
  then show "ErrorEvent err \<in> set (events child)"
    using rejected_only_by_error[of codec _ _ "events child" initial_run err]
    by (simp add: defaultRunCliArgs_def Let_def initial_run_def)
qed

lemma settled_examples:
  "(\<exists>r. outcome (defaultRunCliArgs ascii_codec xxd_invocation failing_child) = Some (Resolved r)
       \<and> r_exitCode r = 2)
   \<and> (\<exists>r. outcome (defaultRunCliArgs ascii_codec xxd_invocation killed_child) = Some (Resolved r)
       \<and> r_exitCode r = - 1)
   \<and> outcome (defaultRunCliArgs ascii_codec xxd_invocation unspawned_child) = Some (Rejected ''spawn xxd ENOENT'')"
  using close_resolves_error_rejects[where child = failing_child and pre = "[StderrData (StringChunk ''no such file'')]"
      and code = "Some 2" and post = "[]" and codec = ascii_codec and input = xxd_invocation]
    close_resolves_error_rejects[where child = killed_child and pre = "[]"
      and code = "None" and post = "[]" and codec = ascii_codec and input = xxd_invocation]
    close_resolves_error_rejects[where child = unspawned_child and pre = "[]" and err = "''spawn xxd ENOENT''"
      and post = "[CloseEvent (Some (- 2))]" and codec = ascii_codec and input = xxd_invocation]
  by (simp add: failing_child_def killed_child_def unspawned_child_def)

text \<open>
  What it misses: an error of the stdin stream that comes before the close and error events
  of the child leaves the promise pending for ever, whatever follows.
\<close>

lemma stdin_error_leaves_pending:
  assumes "list_all is_data pre" and "events child = pre @ StdinError err # post"
  shows "outcome (defaultRunCliArgs codec input child) = None
       \<and> uncaught_exception (defaultRunCliArgs codec input child) = Some err"
proof -
  let ?cb = "inv_capture input = Some CaptureBuffer \<or> inv_capture input = Some CaptureBoth"
  let ?ct = "inv_capture input = Some CaptureText \<or> inv_capture input = Some CaptureBoth"
  let ?st = "fold (deliver codec ?cb ?ct) pre initial_run"
  have p: "promise ?st = None" "uncaught ?st = None"
    using assms(1) by (simp_all add: promise_data uncaught_data initial_run_def)
  then have d: "deliver codec ?cb ?ct (StdinError err) ?st = ?st\<lparr>uncaught := Some err\<rparr>"
    by (simp add: deliver_def)
  have "fold (deliver codec ?cb ?ct) (events child) initial_run = ?st\<lparr>uncaught := Some err\<rparr>"
    using assms(2) d uncaught_stays[of "?st\<lparr>uncaught := Some err\<rparr>" err codec ?cb ?ct post]
    by simp
  with p show ?thesis
    by (simp add: defaultRunCliArgs_def Let_def)
qed

text \<open>
  C1 does not hold of the code: the command \<open>true\<close> spawns, exits with code 0 and closes
  without reading the mebibyte given as \<open>stdinValue\<close>; the write to its stdin fails, the
  error event of the stdin stream has no listener, and the promise neither resolves with
  exit code 0 nor rejects: it stays pending, with the write error as uncaught exception.
\<close>

theorem C1_unread_stdin_never_settles:
  "outcome (defaultRunCliArgs ascii_codec true_invocation unread_child) = None
   \<and> uncaught_exception (defaultRunCliArgs ascii_codec true_invocation unread_child) = Some ''write EPIPE''
   \<and> events unread_child = [StdinError ''write EPIPE'', CloseEvent (Some 0)]"
  by (simp add: defaultRunCliArgs_def Let_def deliver_def unread_child_def true_invocation_def
      initial_run_def)

text \<open>
  C2: a byte buffer given as \<open>stdinValue\<close> reaches the stdin of the child unchanged, a
  string reaches it in the text encoding of the runtime (UTF-8), and in both cases the
  stream receives that single chunk and is ended.
\<close>

theorem C2_stdin_bytes:
  "(has_stdin child \<and> inv_stdinValue input = JBytes b \<longrightarrow>
      stdin (defaultRunCliArgs codec input child) = \<lparr>stdin_chunks = [b], stdin_ended = True\<rparr>)
   \<and> (has_stdin child \<and> inv_stdinValue input = JStr s \<longrightarrow>
      stdin (defaultRunCliArgs codec input child) =
        \<lparr>stdin_chunks = [encode codec s], stdin_ended = True\<rparr>)"
  by (simp add: defaultRunCliArgs_def Let_def feed_stdin_def stdin_end_buffer_def stdin_end_string_def)

theorem C2_stdin_bytes_witness:
  "stdin (defaultRunCliArgs ascii_codec xxd_invocation xxd_child) =
     \<lparr>stdin_chunks = [[0, 1, 2, 3, 4]], stdin_ended = True\<rparr>
   \<and> stdin (defaultRunCliArgs ascii_codec (xxd_invocation\<lparr>inv_stdinValue := JStr ''hi''\<rparr>) xxd_child) =
     \<lparr>stdin_chunks = [encode ascii_codec ''hi''], stdin_ended = True\<rparr>"
  using C2_stdin_bytes[where child = xxd_child and input = xxd_invocation and b = "[0, 1, 2, 3, 4]"
      and codec = ascii_codec]
    C2_stdin_bytes[where child = xxd_child and input = "xxd_invocation\<lparr>inv_stdinValue := JStr ''hi''\<rparr>"
      and s = "''hi''" and codec = ascii_codec]
  by (simp add: xxd_invocation_def xxd_child_def)

lemma sort_keys: "distinct (map fst a) \<Longrightarrow> sort (Object_keys a) = sorted_list_of_set (fst ` set a)"
proof -
  assume d: "distinct (map fst a)"
  have "sorted_list_of_set (fst ` set a) = sorted_list_of_set (set (map fst a))"
    by simp
  also have "\<dots> = sort (remdups (map fst a))"
    by (rule sorted_list_of_set_sort_remdups)
  also have "\<dots> = sort (map fst a)"
    using d by (simp only: distinct_remdups_id)
  finally show ?thesis
    by (simp add: Object_keys_def)
qed

text \<open>
  C5: the argv of the spawned command lists the printed argument values in the
  lexicographic order of their keys, so two objects with the same entries, inserted in any
  order, give the same argv.
\<close>

theorem C5_argv_sorted_by_key:
  assumes "inv_args input = Some a" and "distinct (map fst a)"
    and "inv_args input' = Some b" and "distinct (map fst b)" and "set a = set b"
  shows "sp_argv (spawned (defaultRunCliArgs codec input child)) =
           map (\<lambda>key. String_js (the (map_of a key))) (sorted_list_of_set (fst ` set a))
         \<and> sp_argv (spawned (defaultRunCliArgs codec input' child')) =
           sp_argv (spawned (defaultRunCliArgs codec input child))"
proof -
  have get: "obj_get (Some kvs) key = the (map_of kvs key)" if "key \<in> fst ` set kvs" for kvs key
    using that by (auto simp: obj_get_def map_of_eq_None_iff split: option.splits)
  have argv: "cli_argv i = map (\<lambda>key. String_js (the (map_of kvs key))) (sorted_list_of_set (fst ` set kvs))"
    if "inv_args i = Some kvs" "distinct (map fst kvs)" for i kvs
    using that by (simp add: cli_argv_def sort_keys get)
  have "map_of a = map_of b"
    using assms(2,4,5) by (simp add: map_of_inject_set)
  then show ?thesis
    using argv[OF assms(1,2)] argv[OF assms(3,4)] assms(5)
    by (simp add: defaultRunCliArgs_def Let_def)
qed

theorem C5_argv_sorted_by_key_witness:
  "sp_argv (spawned (defaultRunCliArgs ascii_codec tee_invocation killed_child)) = [''cli-output.txt'', ''-a'']
   \<and> sp_argv (spawned (defaultRunCliArgs ascii_codec
        (tee_invocation\<lparr>inv_args := Some [(''file'', JStr ''cli-output.txt''), (''flag'', JStr ''-a'')]\<rparr>)
        killed_child)) = [''cli-output.txt'', ''-a'']"
proof -
  have s: "sorted_list_of_set {''flag'', ''file''} = [''file'', ''flag'']"
    by code_simp
  show ?thesis
  using C5_argv_sorted_by_key[where input = tee_invocation
      and a = "[(''flag'', JStr ''-a''), (''file'', JStr ''cli-output.txt'')]"
      and input' = "tee_invocation\<lparr>inv_args := Some [(''file'', JStr ''cli-output.txt''), (''flag'', JStr ''-a'')]\<rparr>"
      and b = "[(''file'', JStr ''cli-output.txt''), (''flag'', JStr ''-a'')]"
      and codec = ascii_codec and child = killed_child and child' = killed_child]
  by (simp add: tee_invocation_def s insert_commute)
qed

lemma stdout_chunks_run:
  "list_all is_data pre \<Longrightarrow>
   concat (stdoutChunks (fold (deliver codec True ct) pre initial_run)) = stdout_bytes codec pre"
  "list_all is_data pre \<Longrightarrow>
   concat (stderrChunks (fold (deliver codec True ct) pre initial_run)) = stderr_bytes codec pre"
  by (simp_all add: stdout_chunks_data stderr_chunks_data initial_run_def)

text \<open>
  C6: the result carries \<open>stdoutBuffer\<close> and \<open>stderrBuffer\<close> exactly when the
  capture mode is \<open>buffer\<close> or \<open>both\<close>, each the concatenation in arrival order of
  the chunks its stream emitted before the close event; in mode \<open>buffer\<close> the two
  strings are the decodings of these buffers.
\<close>

theorem C6_captured_buffers:
  assumes "list_all is_data pre" and "events child = pre @ CloseEvent code # post"
  shows "\<exists>r. outcome (defaultRunCliArgs codec input child) = Some (Resolved r)
      \<and> r_stdoutBuffer r =
          (if inv_capture input = Some CaptureBuffer \<or> inv_capture input = Some CaptureBoth
           then Some (stdout_bytes codec pre) else None)
      \<and> r_stderrBuffer r =
          (if inv_capture input = Some CaptureBuffer \<or> inv_capture input = Some CaptureBoth
           then Some (stderr_bytes codec pre) else None)
      \<and> (inv_capture input = Some CaptureBuffer \<longrightarrow>
           r_stdout r = decode codec (stdout_bytes codec pre)
         \<and> r_stderr r = decode codec (stderr_bytes codec pre))"
proof -
  let ?cb = "inv_capture input = Some CaptureBuffer \<or> inv_capture input = Some CaptureBoth"
  let ?ct = "inv_capture input = Some CaptureText \<or> inv_capture input = Some CaptureBoth"
  let ?st = "fold (deliver codec ?cb ?ct) pre initial_run"
  have p: "promise ?st = None"
    using assms(1) by (simp add: promise_data initial_run_def)
  have u: "uncaught ?st = None"
    using assms(1) by (simp add: uncaught_data initial_run_def)
  have o: "outcome (defaultRunCliArgs codec input child) =
      promise (fold (deliver codec ?cb ?ct) post (on_close codec ?cb ?ct code ?st))"
    using assms(2) u by (simp add: defaultRunCliArgs_def Let_def deliver_def)
  have r: "promise (fold (deliver codec ?cb ?ct) post (on_close codec ?cb ?ct code ?st)) =
     Some (Resolved \<lparr>
       r_stdout = (if ?cb \<and> \<not> ?ct then decode codec (concat (stdoutChunks ?st)) else stdout ?st),
       r_stderr = (if ?cb \<and> \<not> ?ct then decode codec (concat (stderrChunks ?st)) else stderr ?st),
       r_stdoutBuffer = (if ?cb then Some (concat (stdoutChunks ?st)) else None),
       r_stderrBuffer = (if ?cb then Some (concat (stderrChunks ?st)) else None),
       r_exitCode = (case code of None \<Rightarrow> - 1 | Some c \<Rightarrow> c)\<rparr>)"
    by (rule promise_settled) (rule promise_on_close[OF p])
  show ?thesis
  proof (cases ?cb)
    case True
    then have "?cb = True" by simp
    with r o stdout_chunks_run[OF assms(1), of codec ?ct] show ?thesis
      by auto
  next
    case False
    with r o show ?thesis by auto
  qed
qed

theorem C6_captured_buffers_witness:
  "\<exists>r. outcome (defaultRunCliArgs ascii_codec (xxd_invocation\<lparr>inv_capture := Some CaptureBuffer\<rparr>) printf_child)
        = Some (Resolved r)
      \<and> r_stdoutBuffer r = Some [0, 1, 2, 3, 4]
      \<and> r_stderrBuffer r = Some (encode ascii_codec ''w'')
      \<and> r_stdout r = decode ascii_codec [0, 1, 2, 3, 4]
      \<and> r_stderr r = decode ascii_codec (encode ascii_codec ''w'')"
  using C6_captured_buffers[where child = printf_child
      and pre = "[StdoutData (BufferChunk [0, 1]), StderrData (StringChunk ''w''), StdoutData (BufferChunk [2, 3, 4])]"
      and code = "Some 0" and post = "[]" and codec = ascii_codec
      and input = "xxd_invocation\<lparr>inv_capture := Some CaptureBuffer\<rparr>"]
  by (simp add: printf_child_def xxd_invocation_def chunk_buffer_def)


section \<open>Properties of the schema converter\<close>

lemma required_iff_unwrapped:
  "unwrapSchema val = Inr u \<Longrightarrow> u_required u = (\<not> wrapped_optional_or_default val)"
  by (subst (asm) unwrapSchema.simps, cases "unwrapEffects val")
     (auto simp: wrapped_optional_or_default_def split: sum.splits zod.splits)

lemma required_no_default:
  "unwrapSchema val = Inr u \<Longrightarrow> u_required u \<Longrightarrow> u_defaultValue u = JUndefined"
  by (subst (asm) unwrapSchema.simps, cases "unwrapEffects val")
     (auto split: sum.splits zod.splits)

lemma converted_default:
  "zodToWorkflowParserJsonSchema val = Inr converted \<Longrightarrow> unwrapSchema val = Inr u
   \<Longrightarrow> u_defaultValue u \<noteq> JUndefined \<Longrightarrow> pd_default converted = u_defaultValue u"
  by (subst (asm) zodToWorkflowParserJsonSchema.simps)
     (auto simp: with_default_def split: sum.splits)

lemma converted_unwraps:
  "zodToWorkflowParserJsonSchema val = Inr converted \<Longrightarrow> \<exists>u. unwrapSchema val = Inr u"
  by (subst (asm) zodToWorkflowParserJsonSchema.simps) (auto split: sum.splits)

lemma converted_inner:
  "zodToWorkflowParserJsonSchema val = Inr converted \<Longrightarrow> unwrapSchema val = Inr u
   \<Longrightarrow> \<not> is_wrapper (u_inner u)"
  by (subst (asm) zodToWorkflowParserJsonSchema.simps)
     (auto split: sum.splits zod.splits)

text \<open>The wrappers of the claim's words and those of the code.\<close>

lemma unwrapEffects_no_effects: "unwrapEffects s \<noteq> ZEffects t"
  by (induction s rule: unwrapEffects.induct) simp_all

lemma unwrapEffects_idem: "unwrapEffects (unwrapEffects s) = unwrapEffects s"
  by (induction s rule: unwrapEffects.induct) simp_all

lemma declared_default_effects: "declared_default (unwrapEffects s) = declared_default s"
  by (induction s rule: unwrapEffects.induct) simp_all

lemma core_effects: "core (unwrapEffects s) = core s"
  by (induction s rule: unwrapEffects.induct) simp_all

lemma boolean_literal_effects: "boolean_literal (unwrapEffects s) = boolean_literal s"
  by (induction s rule: unwrapEffects.induct) simp_all

lemma no_wrapper:
  "\<not> is_wrapper (unwrapEffects s) \<Longrightarrow>
     declared_default s = JUndefined \<and> core s = unwrapEffects s"
  using unwrapEffects_no_effects[of s] declared_default_effects[of s] core_effects[of s]
  by (cases "unwrapEffects s") auto

lemma wrapped_words:
  "wrapped_optional_or_default val = (is_optional val \<or> carries_default val)"
  by (induction val rule: unwrapEffects.induct) (simp_all add: wrapped_optional_or_default_def)

lemma unwrapSchema_words:
  "unwrapSchema val = Inr u \<Longrightarrow> \<not> is_wrapper (u_inner u) \<Longrightarrow>
     u_defaultValue u = declared_default val \<and> u_inner u = core val"
proof (induction val arbitrary: u rule: unwrapSchema.induct)
  case (1 schema)
  obtain dv cur req where sd: "strip_default (unwrapEffects schema) = (dv, cur, req)"
    by (cases "strip_default (unwrapEffects schema)") auto
  have dd: "declared_default schema = (if dv \<noteq> JUndefined then dv else declared_default cur)"
    and co: "core schema = core cur"
    using sd declared_default_effects[of schema] core_effects[of schema] unwrapEffects_no_effects[of schema]
    by (cases "unwrapEffects schema"; auto)+
  show ?case
  proof (cases "\<exists>innerType. cur = ZOptional innerType")
    case True
    then obtain innerType where c: "cur = ZOptional innerType" by blast
    from "1.prems"(1) sd c obtain nested where n: "unwrapSchema innerType = Inr nested"
      and ui: "u_inner u = unwrapEffects (u_inner nested)"
      and ud: "u_defaultValue u =
          (if dv = JUndefined \<and> u_defaultValue nested \<noteq> JUndefined then u_defaultValue nested else dv)"
      by (subst (asm) unwrapSchema.simps) (auto split: sum.splits zod.splits)
    from n have "unwrapEffects (u_inner nested) = u_inner nested"
      by (subst (asm) unwrapSchema.simps)
         (auto simp: unwrapEffects_idem split: sum.splits zod.splits prod.splits)
    with ui "1.prems"(2) have nw: "\<not> is_wrapper (u_inner nested)" and ui': "u_inner u = u_inner nested"
      by simp_all
    from "1.IH"[OF sd[symmetric] refl c n nw]
    have "u_defaultValue nested = declared_default innerType" "u_inner nested = core innerType"
      by simp_all
    with ud ui' dd co c show ?thesis by auto
  next
    case False
    with "1.prems"(1) sd have ui: "u_inner u = unwrapEffects cur" and ud: "u_defaultValue u = dv"
      by (subst (asm) unwrapSchema.simps; auto split: sum.splits zod.splits)+
    from no_wrapper[of cur] "1.prems"(2) ui
    have "declared_default cur = JUndefined" "core cur = unwrapEffects cur" by simp_all
    with ui ud dd co show ?thesis by auto
  qed
qed

lemma declared_default_recorded:
  assumes "zodToWorkflowParserJsonSchema val = Inr converted"
    and "declared_default val \<noteq> JUndefined"
  shows "pd_default converted = declared_default val"
proof -
  from converted_unwraps[OF assms(1)] obtain u where u: "unwrapSchema val = Inr u" by blast
  from unwrapSchema_words[OF u converted_inner[OF assms(1) u]]
  have "u_defaultValue u = declared_default val" by simp
  with converted_default[OF assms(1) u] assms(2) show ?thesis by simp
qed

text \<open>The converted schemas that have a \<open>default\<close> without a default wrapper.\<close>

lemma literal_of_boolean_value:
  "literal_of_boolean (ZLiteral v vs) = is_boolean (literal_value v vs)"
  by (cases v; cases vs; simp add: literal_value_def split: list.splits jsval.splits)

lemma convert_literal_default:
  "convert_literal v vs = Inr converted \<Longrightarrow>
     (pd_default converted \<noteq> JUndefined) = literal_of_boolean (ZLiteral v vs)"
  unfolding literal_of_boolean_value
  by (cases "literal_value v vs")
     (auto simp: convert_literal_def Let_def with_enum_def with_default_def draft_def
       split: if_splits)

lemma union_value_boolean:
  "is_literal s \<Longrightarrow> is_boolean (union_literal_value s) \<Longrightarrow> literal_of_boolean s"
  by (cases s) (auto split: jsval.splits option.splits list.splits if_splits)

lemma boolean_union_value:
  "literal_of_boolean s \<Longrightarrow>
     is_boolean (union_literal_value s) \<or> union_literal_value s = JNull"
  by (cases s) (auto split: jsval.splits option.splits list.splits if_splits)

lemma union_default:
  assumes "convertUnionOfLiterals options = Inr converted"
  shows "(pd_default converted \<noteq> JUndefined) =
           (case options of [s] \<Rightarrow> literal_of_boolean (core s) | _ \<Rightarrow> False)"
proof -
  from assms obtain inners where ua: "unwrap_all options = Inr inners"
    and len: "length (filter is_literal inners) = length options"
    by (auto simp: convertUnionOfLiterals_def Let_def split: sum.splits if_splits)
  have li: "length inners = length options"
    using ua by (induction options arbitrary: inners) (auto split: sum.splits)
  with len have fl: "filter is_literal inners = inners"
    by (metis filter_True length_filter_less not_less_iff_gr_or_eq filter_id_conv)
  let ?vals = "map union_literal_value inners"
  from assms ua fl have conv: "converted =
      (if list_all is_string ?vals then with_enum ?vals (draft ''string'')
       else if list_all is_number ?vals then with_enum ?vals (draft ''number'')
       else with_default (hd ?vals) (draft ''boolean''))"
    and single: "\<not> list_all is_string ?vals \<Longrightarrow> \<not> list_all is_number ?vals
                 \<Longrightarrow> list_all is_boolean ?vals \<and> length inners = 1"
    by (auto simp: convertUnionOfLiterals_def Let_def split: sum.splits if_splits list.splits)
  show ?thesis
  proof (cases options)
    case Nil
    with li conv show ?thesis by (simp add: with_enum_def draft_def)
  next
    case (Cons s rest)
    show ?thesis
    proof (cases rest)
      case Nil
      with Cons ua obtain u where u: "unwrapSchema s = Inr u" and inn: "inners = [u_inner u]"
        by (auto split: sum.splits)
      from fl inn have lit: "is_literal (u_inner u)"
        by (auto split: if_splits)
      then have "\<not> is_wrapper (u_inner u)"
        by (cases "u_inner u") simp_all
      from unwrapSchema_words[OF u this] have c: "core s = u_inner u" by simp
      let ?v = "union_literal_value (u_inner u)"
      show ?thesis
      proof (cases "is_string ?v \<or> is_number ?v")
        case True
        then have "\<not> literal_of_boolean (u_inner u)"
          using boolean_union_value[of "u_inner u"] by (cases ?v) auto
        with True conv inn Cons Nil c show ?thesis
          by (auto simp: with_enum_def draft_def)
      next
        case False
        with single inn have b: "is_boolean ?v" by simp
        then have "?v \<noteq> JUndefined" by (cases ?v) auto
        with False conv inn Cons Nil c union_value_boolean[OF lit b] show ?thesis
          by (auto simp: with_default_def draft_def)
      qed
    next
      case (Cons t rest')
      with \<open>options = s # rest\<close> li have l2: "length inners \<ge> 2" by simp
      then have "list_all is_string ?vals \<or> list_all is_number ?vals"
        using single by auto
      with conv Cons \<open>options = s # rest\<close> show ?thesis
        by (auto simp: with_enum_def draft_def)
    qed
  qed
qed

lemma unwrapped_default:
  assumes c: "zodToWorkflowParserJsonSchema val = Inr converted"
    and w: "\<not> wrapped_optional_or_default val"
  shows "(pd_default converted \<noteq> JUndefined) = boolean_literal val"
proof -
  from converted_unwraps[OF c] obtain u where u: "unwrapSchema val = Inr u" by blast
  from u w have "u_inner u = unwrapEffects val \<and> u_defaultValue u = JUndefined"
    by (subst (asm) unwrapSchema.simps, cases "unwrapEffects val")
       (auto simp: wrapped_optional_or_default_def unwrapEffects_idem unwrapEffects_no_effects
          split: sum.splits zod.splits)
  then have ui: "u_inner u = unwrapEffects val" and ud: "u_defaultValue u = JUndefined"
    by simp_all
  have bl: "boolean_literal val = boolean_literal (unwrapEffects val)"
    by (simp add: boolean_literal_effects)
  from c u ui ud show ?thesis
    unfolding bl
    by (subst (asm) zodToWorkflowParserJsonSchema.simps, cases "unwrapEffects val")
       (auto simp: draft_def string_draft_def number_draft_def array_draft_def object_draft_def
          with_enum_def convert_literal_default union_default
          split: sum.splits prod.splits)
qed

lemma key_required_words:
  "zodToWorkflowParserJsonSchema val = Inr converted \<Longrightarrow>
   key_required val = (\<not> is_optional val \<and> \<not> carries_default val \<and> \<not> boolean_literal val)"
  using unwrapped_default[of val converted]
  by (auto simp: key_required_def wrapped_words)

lemma convert_shape_spec:
  "convert_shape shape props req = Inr (props', req') \<Longrightarrow> distinct (map fst shape) \<Longrightarrow>
     req' = req @ map fst (filter (\<lambda>kv. key_required (snd kv)) shape)
     \<and> (\<forall>k. map_of props' k =
            (if k = ''__proto__'' then map_of props k
             else case map_of shape k of None \<Rightarrow> map_of props k | Some v \<Rightarrow> converted_of v))
     \<and> (\<forall>kv \<in> set shape. converted_of (snd kv) \<noteq> None)"
proof (induction shape arbitrary: props req)
  case Nil
  then show ?case by simp
next
  case (Cons kv rest)
  obtain key val where kv: "kv = (key, val)" by (cases kv)
  from Cons.prems(1) kv obtain converted unwrapped where
    c: "zodToWorkflowParserJsonSchema val = Inr converted" and
    u: "unwrapSchema val = Inr unwrapped" and
    r: "convert_shape rest (obj_assign key converted props)
          (if u_required unwrapped \<and> \<not> (pd_default converted \<noteq> JUndefined
                \<or> u_defaultValue unwrapped \<noteq> JUndefined)
           then req @ [key] else req) = Inr (props', req')"
    by (auto simp: Let_def split: sum.splits)
  from Cons.prems(2) kv have d: "distinct (map fst rest)" and nk: "key \<notin> fst ` set rest"
    by auto
  note ih = Cons.IH[OF r d]
  have kr: "key_required val =
      (u_required unwrapped \<and> \<not> (pd_default converted \<noteq> JUndefined
                \<or> u_defaultValue unwrapped \<noteq> JUndefined))"
    using c u required_iff_unwrapped[OF u] required_no_default[OF u]
    by (auto simp: key_required_def)
  have co: "converted_of val = Some converted"
    using c by (simp add: converted_of_def)
  have none: "map_of rest key = None"
    using nk by (simp add: map_of_eq_None_iff)
  show ?case
  proof (intro conjI allI)
    show "req' = req @ map fst (filter (\<lambda>kv. key_required (snd kv)) (kv # rest))"
      using ih kr kv by auto
  next
    fix k
    show "map_of props' k =
        (if k = ''__proto__'' then map_of props k
         else case map_of (kv # rest) k of None \<Rightarrow> map_of props k | Some v \<Rightarrow> converted_of v)"
      using ih kv co none by (auto simp: obj_assign_def update_conv' split: option.splits)
  next
    show "\<forall>kv \<in> set (kv # rest). converted_of (snd kv) \<noteq> None"
      using ih kv co by auto
  qed
qed

lemma test_schema_converted:
  "zodToWorkflowParserJsonSchema test_schema =
     Inr (object_draft
       [(''status'', with_enum [JStr ''pending'', JStr ''done''] (draft ''string'')),
        (''choice'', with_enum [JNum 1, JNum 2] (draft ''number'')),
        (''maybe'', draft ''string''),
        (''flag'', with_default (JBool True) (draft ''boolean''))]
       [''status'', ''choice''])"
  by code_simp

text \<open>
  C10, as stated, fails on the schema of the repository's own test: the property
  \<open>flag\<close>, the literal \<open>true\<close>, is neither optional nor does it carry a default value,
  and its key is missing from \<open>required\<close>, which the test expects to be \<open>status\<close> and
  \<open>choice\<close>.
\<close>

theorem C10_boolean_literal_counterexample:
  "test_schema = ZObject [(''status'', ZEnum [''pending'', ''done'']),
     (''choice'', ZUnion [ZLiteral (JNum 1) None, ZLiteral (JNum 2) None]),
     (''maybe'', ZOptional (ZString [])),
     (''flag'', ZLiteral (JBool True) None)]
   \<and> (\<exists>parsed. zodToWorkflowParserJsonSchema test_schema = Inr parsed
        \<and> required_keys parsed = [''status'', ''choice'']
        \<and> ''flag'' \<notin> set (required_keys parsed))
   \<and> is_optional (ZLiteral (JBool True) None) = False
   \<and> carries_default (ZLiteral (JBool True) None) = False"
  by (simp add: test_schema_converted test_schema_def[symmetric] object_draft_def required_keys_def)

text \<open>
  C10, amended: for an object schema that converts, each property of the shape converts; its
  key is in \<open>required\<close> if and only if the property is neither optional, nor carries a
  default value, nor is a boolean literal (the converter records the value of a boolean
  literal as the \<open>default\<close> of its converted schema); a property under any key but
  \<open>__proto__\<close>, optional and defaulted ones too, appears in \<open>properties\<close> with its
  converted schema; the default value that a property carries is the \<open>default\<close> of its
  converted schema; and \<open>required\<close> holds keys of the shape only.
\<close>

theorem C10_required_keys:
  assumes "zodToWorkflowParserJsonSchema schema = Inr parsed"
    and "unwrapSchema schema = Inr u" and "u_inner u = ZObject shape"
    and "distinct (map fst shape)" and "(key, val) \<in> set shape"
  shows "\<exists>converted props.
      zodToWorkflowParserJsonSchema val = Inr converted
      \<and> pd_properties parsed = Some props
      \<and> (key \<noteq> ''__proto__'' \<longrightarrow> map_of props key = Some converted)
      \<and> (key \<in> set (required_keys parsed) \<longleftrightarrow>
           \<not> is_optional val \<and> \<not> carries_default val \<and> \<not> boolean_literal val)
      \<and> (declared_default val \<noteq> JUndefined \<longrightarrow> pd_default converted = declared_default val)
      \<and> set (required_keys parsed) \<subseteq> fst ` set shape"
proof -
  from assms(1-3) obtain props req where
    cs: "convert_shape shape [] [] = Inr (props, req)" and
    pp: "pd_properties parsed = Some props" and
    pr: "required_keys parsed = req"
    by (subst (asm) zodToWorkflowParserJsonSchema.simps)
       (auto simp: with_default_def object_draft_def required_keys_def split: sum.splits if_splits)
  note spec = convert_shape_spec[OF cs assms(4)]
  from spec assms(5) obtain converted where co: "converted_of val = Some converted"
    by fastforce
  then have c: "zodToWorkflowParserJsonSchema val = Inr converted"
    by (auto simp: converted_of_def split: sum.splits)
  have mo: "map_of shape key = Some val"
    using assms(4,5) by simp
  have m: "key \<noteq> ''__proto__'' \<longrightarrow> map_of props key = Some converted"
    using spec mo co by simp
  have "key \<in> set req \<longleftrightarrow> key_required val"
  proof
    assume "key \<in> set req"
    with spec obtain v where "(key, v) \<in> set shape" "key_required v" by auto
    with assms(4,5) show "key_required val"
      by (metis mo map_of_is_SomeI option.inject)
  next
    assume "key_required val"
    with spec assms(5) show "key \<in> set req" by force
  qed
  then have r: "key \<in> set (required_keys parsed) \<longleftrightarrow>
      \<not> is_optional val \<and> \<not> carries_default val \<and> \<not> boolean_literal val"
    using pr key_required_words[OF c] by simp
  have dflt: "declared_default val \<noteq> JUndefined \<longrightarrow> pd_default converted = declared_default val"
    using declared_default_recorded[OF c] by simp
  have sub: "set (required_keys parsed) \<subseteq> fst ` set shape"
    using spec pr by auto
  from c pp m r dflt sub show ?thesis by blast
qed


theorem C10_required_keys_witness:
  "zodToWorkflowParserJsonSchema ticket_schema =
     Inr (object_draft
       [(''name'', draft ''string''), (''maybe'', draft ''string''),
        (''priority'', with_default (JNum 3) (draft ''number'')),
        (''level'', with_default (JNum 1) (draft ''number'')),
        (''flag'', with_default (JBool True) (draft ''boolean''))]
       [''name''])
   \<and> required_keys (object_draft
       [(''name'', draft ''string''), (''maybe'', draft ''string''),
        (''priority'', with_default (JNum 3) (draft ''number'')),
        (''level'', with_default (JNum 1) (draft ''number'')),
        (''flag'', with_default (JBool True) (draft ''boolean''))]
       [''name'']) = [''name'']
   \<and> \<not> is_optional (ZString []) \<and> \<not> carries_default (ZString []) \<and> \<not> boolean_literal (ZString [])
   \<and> is_optional (ZOptional (ZDefault (JNum 1) (ZNumber [])))
   \<and> carries_default (ZOptional (ZDefault (JNum 1) (ZNumber [])))
   \<and> declared_default (ZOptional (ZDefault (JNum 1) (ZNumber []))) = JNum 1
   \<and> zodToWorkflowParserJsonSchema (ZOptional (ZDefault (JNum 1) (ZNumber []))) =
       Inr (with_default (JNum 1) (draft ''number''))
   \<and> pd_default (with_default (JNum 1) (draft ''number'')) = JNum 1
   \<and> boolean_literal (ZLiteral (JBool True) None)"
proof -
  let ?shape = "[(''name'', ZString []), (''maybe'', ZOptional (ZString [])),
       (''priority'', ZDefault (JNum 3) (ZNumber [])),
       (''level'', ZOptional (ZDefault (JNum 1) (ZNumber []))),
       (''flag'', ZLiteral (JBool True) None)]"
  let ?parsed = "object_draft
       [(''name'', draft ''string''), (''maybe'', draft ''string''),
        (''priority'', with_default (JNum 3) (draft ''number'')),
        (''level'', with_default (JNum 1) (draft ''number'')),
        (''flag'', with_default (JBool True) (draft ''boolean''))]
       [''name'']"
  have t: "zodToWorkflowParserJsonSchema (ZObject ?shape) = Inr ?parsed"
    by code_simp
  have us: "unwrapSchema (ZObject ?shape) =
      Inr \<lparr>u_inner = ZObject ?shape, u_defaultValue = JUndefined, u_required = True\<rparr>"
    by code_simp
  have lv: "zodToWorkflowParserJsonSchema (ZOptional (ZDefault (JNum 1) (ZNumber []))) =
       Inr (with_default (JNum 1) (draft ''number''))"
    by code_simp
  have d: "distinct (map fst ?shape)"
    by simp
  have ui: "u_inner \<lparr>u_inner = ZObject ?shape, u_defaultValue = JUndefined, u_required = True\<rparr> =
      ZObject ?shape"
    by simp
  have m1: "(''name'', ZString []) \<in> set ?shape"
    and m2: "(''level'', ZOptional (ZDefault (JNum 1) (ZNumber []))) \<in> set ?shape"
    by simp_all
  have n: "required_keys ?parsed = [''name'']"
    by (simp add: object_draft_def required_keys_def)
  from C10_required_keys[OF t us ui d m1] n
  have a: "\<not> is_optional (ZString []) \<and> \<not> carries_default (ZString []) \<and> \<not> boolean_literal (ZString [])"
    by simp
  from C10_required_keys[OF t us ui d m2] lv
  have b: "pd_default (with_default (JNum 1) (draft ''number'')) = JNum 1"
    by auto
  from t n a b lv show ?thesis
    by (simp add: ticket_schema_def)
qed

text \<open>
  What becomes of a property under the key \<open>__proto__\<close>: its key is pushed to
  \<open>required\<close>, and \<open>properties\<close> has no property of that name.
\<close>

lemma proto_property_not_recorded:
  "zodToWorkflowParserJsonSchema (ZObject [(''__proto__'', ZString []), (''name'', ZString [])]) =
     Inr (object_draft [(''name'', draft ''string'')] [''__proto__'', ''name''])"
  by code_simp


section \<open>Properties of the round builder\<close>

lemma builder_method_steps:
  "builder_method c d = Inr d' \<Longrightarrow>
   \<exists>new. rd_steps d' = rd_steps d @ new
     \<and> map sd_key new = (case added_key c of None \<Rightarrow> [] | Some k \<Rightarrow> [k])"
  by (cases c)
     (auto simp: push_step_def buildAgentStep_def buildCliStep_def buildWorkflowReferenceStep_def
        buildTransformStep_def split: sum.splits)

lemma builder_methods_steps:
  "builder_methods calls d = Inr d' \<Longrightarrow>
   \<exists>new. rd_steps d' = rd_steps d @ new \<and> map sd_key new = List.map_filter added_key calls"
proof (induction calls arbitrary: d)
  case Nil
  then show ?case by (simp add: List.map_filter_simps)
next
  case (Cons c calls)
  from Cons.prems obtain d1 where m: "builder_method c d = Inr d1"
    and r: "builder_methods calls d1 = Inr d'"
    by (auto split: sum.splits)
  from builder_method_steps[OF m] obtain new1 where n1: "rd_steps d1 = rd_steps d @ new1"
    "map sd_key new1 = (case added_key c of None \<Rightarrow> [] | Some k \<Rightarrow> [k])" by blast
  from Cons.IH[OF r] obtain new2 where n2: "rd_steps d' = rd_steps d1 @ new2"
    "map sd_key new2 = List.map_filter added_key calls" by blast
  have "rd_steps d' = rd_steps d @ (new1 @ new2)"
    using n1 n2 by simp
  moreover have "map sd_key (new1 @ new2) = List.map_filter added_key (c # calls)"
    using n1 n2 by (simp add: List.map_filter_simps split: option.splits)
  ultimately show ?case by blast
qed

lemma mixed_round:
  "round_of mixed_round_calls = Inr \<lparr>round_start = Some ''agent'',
     round_steps =
       [AgentStepDraft ''agent'' ''director'' [''Hello {{state.seed}}'']
          (no_fields\<lparr>cf_stateUpdates := Some [(''echoed'', ''{{parsed}}'')], cf_next := Some ''mirror''\<rparr>),
        TransformStepDraft ''mirror'' (JObj [(''echoed'', JStr ''$.steps.agent.raw'')]) JUndefined None
          no_fields,
        CliStepDraft ''write'' ''printf'' (Some [''{{steps.mirror.raw}}'']) None None None None
          (Some CaptureText) no_fields,
        WorkflowReferenceStepDraft ''delegate'' ''child-workflow.v1''
          (Some [(''value'', JStr ''{{steps.write.parsed.stdout}}'')])
          (Some (object_draft [(''value'', draft ''string'')] [''value'']))
          no_fields],
     round_maxRounds = Some 2,
     round_defaultOutcome = (''done'', ''Completed mixed workflow'')\<rparr>"
  by code_simp

text \<open>
  C9: \<open>build\<close> throws \<open>defaultOutcome is required for workflow rounds\<close> when no default
  outcome was set, throws \<open>At least one step is required in a workflow round\<close> when one
  was set and the list of steps is empty, and otherwise returns the round with the steps of
  the draft; so it succeeds exactly when a default outcome is present and there is a step.
  The steps of a round built from a chain of method calls carry the keys of the calls that
  add a step, in the order of the calls.
\<close>

theorem C9_round_build:
  "(rd_defaultOutcome d = None \<longrightarrow>
      build d = Inl (Error ''defaultOutcome is required for workflow rounds''))
   \<and> (rd_defaultOutcome d \<noteq> None \<and> rd_steps d = [] \<longrightarrow>
      build d = Inl (Error ''At least one step is required in a workflow round''))
   \<and> (rd_defaultOutcome d = Some dflt \<and> rd_steps d \<noteq> [] \<longrightarrow>
      build d = Inr \<lparr>round_start = rd_start d, round_steps = rd_steps d,
                     round_maxRounds = rd_maxRounds d, round_defaultOutcome = dflt\<rparr>)
   \<and> ((\<exists>r. build d = Inr r) \<longleftrightarrow> rd_defaultOutcome d \<noteq> None \<and> rd_steps d \<noteq> [])
   \<and> (round_of calls = Inr built \<longrightarrow> map sd_key (round_steps built) = List.map_filter added_key calls)"
proof (intro conjI impI)
  assume "round_of calls = Inr built"
  then obtain d' where m: "builder_methods calls new_RoundBuilder = Inr d'" and b: "build d' = Inr built"
    by (auto simp: round_of_def split: sum.splits)
  from b have "round_steps built = rd_steps d'"
    by (auto simp: build_def split: option.splits if_splits)
  with builder_methods_steps[OF m] show "map sd_key (round_steps built) = List.map_filter added_key calls"
    by (auto simp: new_RoundBuilder_def)
qed (auto simp: build_def split: option.splits)

theorem C9_round_build_witness:
  "build new_RoundBuilder = Inl (Error ''defaultOutcome is required for workflow rounds'')
   \<and> build (new_RoundBuilder\<lparr>rd_defaultOutcome := Some (''done'', ''ok'')\<rparr>) =
       Inl (Error ''At least one step is required in a workflow round'')
   \<and> (\<exists>r. round_of mixed_round_calls = Inr r
        \<and> map sd_key (round_steps r) = [''agent'', ''mirror'', ''write'', ''delegate''])"
  using C9_round_build[where d = new_RoundBuilder and calls = mixed_round_calls]
    C9_round_build[where d = "new_RoundBuilder\<lparr>rd_defaultOutcome := Some (''done'', ''ok'')\<rparr>"
      and calls = mixed_round_calls
      and built = "\<lparr>round_start = Some ''agent'',
     round_steps =
       [AgentStepDraft ''agent'' ''director'' [''Hello {{state.seed}}'']
          (no_fields\<lparr>cf_stateUpdates := Some [(''echoed'', ''{{parsed}}'')], cf_next := Some ''mirror''\<rparr>),
        TransformStepDraft ''mirror'' (JObj [(''echoed'', JStr ''$.steps.agent.raw'')]) JUndefined None
          no_fields,
        CliStepDraft ''write'' ''printf'' (Some [''{{steps.mirror.raw}}'']) None None None None
          (Some CaptureText) no_fields,
        WorkflowReferenceStepDraft ''delegate'' ''child-workflow.v1''
          (Some [(''value'', JStr ''{{steps.write.parsed.stdout}}'')])
          (Some (object_draft [(''value'', draft ''string'')] [''value'']))
          no_fields],
     round_maxRounds = Some 2,
     round_defaultOutcome = (''done'', ''Completed mixed workflow'')\<rparr>"]
    mixed_round
  by (simp add: new_RoundBuilder_def mixed_round_calls_def List.map_filter_simps)


section \<open>Properties of the run harness\<close>

text \<open>
  C4: when the user inputs fail the \<open>user\<close> schema of the document, the result future
  rejects with an InputValidationError whose message is \<open>Invalid user inputs for workflow\<close>,
  the id of the document, a colon and the details of the failure, and the world of the
  collaborators is the one the run started in: no step has run.
\<close>

theorem C4_invalid_user_inputs:
  assumes "validate_user document inputs = Inl e"
  shows "handle_result (runWorkflow engine document inputs world) =
           RejectedWith (InputValidationError
             (''Invalid user inputs for workflow '' @ doc_id document @ '': '' @ error_details e))
         \<and> handle_world (runWorkflow engine document inputs world) = world"
  using assms by (simp add: runWorkflow_def)

theorem C4_invalid_user_inputs_witness:
  "validate_user reference_document (JObj [(''goalFile'', JNum 123), (''goalContent'', JStr ''ok'')]) =
     Inl (ValidationError [''goalFile''] ''expected string'')
   \<and> handle_result (runWorkflow writing_engine reference_document
        (JObj [(''goalFile'', JNum 123), (''goalContent'', JStr ''ok'')]) []) =
       RejectedWith (InputValidationError
         ''Invalid user inputs for workflow workflow-reference.v1: goalFile: expected string'')
   \<and> handle_world (runWorkflow writing_engine reference_document
        (JObj [(''goalFile'', JNum 123), (''goalContent'', JStr ''ok'')]) []) = []
   \<and> handle_world (runWorkflow writing_engine reference_document
        (JObj [(''goalContent'', JStr ''ok'')]) []) = [''nested-output.txt'']"
proof -
  have v: "validate_user reference_document (JObj [(''goalFile'', JNum 123), (''goalContent'', JStr ''ok'')]) =
     Inl (ValidationError [''goalFile''] ''expected string'')"
    by code_simp
  have ok: "handle_world (runWorkflow writing_engine reference_document
        (JObj [(''goalContent'', JStr ''ok'')]) []) = [''nested-output.txt'']"
    by code_simp
  from C4_invalid_user_inputs[OF v, of writing_engine "[]"] v ok show ?thesis
    by (simp add: error_details_def reference_document_def)
qed


end
